theory Spec2Isabelle
  imports Complex_Main "HOL-Library.Word"
begin

section \<open>Exceptions and HTTP error details\<close>

text \<open>
  The \<open>detail\<close> argument of an \<^verbatim>\<open>HTTPException\<close>. Two of the f-strings of
  \<^verbatim>\<open>app/main.py\<close> interpolate values whose printed form belongs to Python (the repr of
  a set, the repr of a float); they are kept as constructors carrying the interpolated
  value. Every other detail is the string itself.
  \<^item> \<open>Invalid_file_type exts\<close>: \<^verbatim>\<open>f"Invalid file type. Allowed: {settings.allowed_extensions}"\<close>
  \<^item> \<open>File_too_large n\<close>: \<^verbatim>\<open>f"File too large. Max size: {settings.max_upload_size / 1024 / 1024}MB"\<close>
  \<^item> \<open>Message s\<close>: the string \<open>s\<close>.
\<close>

datatype detail =
    Invalid_file_type "string list"
  | File_too_large int
  | Message string

text \<open>
  The exceptions the code raises or lets through. Every constructor other than
  \<open>HTTPException\<close> carries \<^verbatim>\<open>str(e)\<close>. \<open>LibraryError\<close> stands for whatever PIL,
  ONNX Runtime or the file system raise: the libraries are parameters of the model
  (record \<open>world\<close> below) that fail with a message, and the model wraps the message.
  The message of a \<open>ValidationError\<close> is pydantic's report, a parameter as well.
\<close>

datatype exn =
    HTTPException int detail
  | RuntimeError string
  | FileNotFoundError string
  | IndexError string
  | ValidationError string
  | LibraryError string

text \<open>
  \<^verbatim>\<open>str(e)\<close>. The code applies it in the second handler of \<^verbatim>\<open>predict\<close> only, which
  an \<^verbatim>\<open>HTTPException\<close> never reaches; for that case the model keeps the detail when it
  is a string (Starlette prints the status code in front of it).
\<close>

fun str_exn :: "exn \<Rightarrow> string" where
  "str_exn (HTTPException c d) = (case d of Message s \<Rightarrow> s | _ \<Rightarrow> [])"
| "str_exn (RuntimeError s) = s"
| "str_exn (FileNotFoundError s) = s"
| "str_exn (IndexError s) = s"
| "str_exn (ValidationError s) = s"
| "str_exn (LibraryError s) = s"

section \<open>Configuration (\<^verbatim>\<open>app/config.py\<close>)\<close>

text \<open>
  The fields of \<^verbatim>\<open>Settings\<close> the prediction path reads. Floats are modelled as
  rationals (every finite float is one; NaN and the infinities are outside the model, and
  so is the rounding of arithmetic results to the nearest float). The set of allowed
  extensions is a list: the code only tests membership and prints it.
\<close>

record settings =
  model_path :: string
  class_names_path :: string
  model_confidence_threshold :: rat
  max_predictions :: int
  max_upload_size :: int
  allowed_extensions :: "string list"

definition default_settings :: settings where
  "default_settings =
     \<lparr> model_path = ''./models/yolo11l-cls.onnx'',
       class_names_path = ''./models/imagenet_classes.txt'',
       model_confidence_threshold = 1 / 4,
       max_predictions = 5,
       max_upload_size = 10 * 1024 * 1024,
       allowed_extensions = [''.jpg'', ''.jpeg'', ''.png'', ''.webp''] \<rparr>"

section \<open>Strings and paths\<close>

text \<open>
  Characters are bytes; \<^verbatim>\<open>str.lower\<close> and \<^verbatim>\<open>str.strip\<close> are modelled on ASCII
  (Python also folds and strips the non-ASCII letters and spaces of Unicode).
\<close>

definition lower_char :: "char \<Rightarrow> char" where
  "lower_char c =
     (if 65 \<le> (of_char c :: nat) \<and> (of_char c :: nat) \<le> 90 then char_of ((of_char c :: nat) + 32)
      else c)"

definition lower :: "string \<Rightarrow> string" where
  "lower s = map lower_char s"

definition isspace :: "char \<Rightarrow> bool" where
  "isspace c \<longleftrightarrow>
     (let n = (of_char c :: nat) in (9 \<le> n \<and> n \<le> 13) \<or> (28 \<le> n \<and> n \<le> 32))"

definition strip :: "string \<Rightarrow> string" where
  "strip s = rev (dropWhile isspace (rev (dropWhile isspace s)))"

text \<open>\<^verbatim>\<open>s.split(sep)\<close> for a one-character separator.\<close>

fun split :: "char \<Rightarrow> string \<Rightarrow> string list" where
  "split sep [] = [[]]"
| "split sep (c # cs) =
     (if c = sep then [] # split sep cs
      else (case split sep cs of [] \<Rightarrow> [[c]] | w # ws \<Rightarrow> (c # w) # ws))"

text \<open>\<^verbatim>\<open>s.rfind(c)\<close>: the highest index of \<open>c\<close> in \<open>s\<close>, or \<open>-1\<close>.\<close>

fun rfind :: "char \<Rightarrow> string \<Rightarrow> int" where
  "rfind c [] = - 1"
| "rfind c (x # xs) =
     (let r = rfind c xs in if 0 \<le> r then r + 1 else if x = c then 0 else - 1)"

text \<open>
  \<^verbatim>\<open>Path(p).name\<close> on a POSIX system: the last component of the path, where empty
  components and \<^verbatim>\<open>.\<close> components are dropped by the parser; the empty string when
  none is left.
\<close>

definition path_name :: "string \<Rightarrow> string" where
  "path_name p =
     (case rev (filter (\<lambda>x. x \<noteq> [] \<and> x \<noteq> ''.'') (split (CHR ''/'') p)) of
        [] \<Rightarrow> []
      | x # _ \<Rightarrow> x)"

text \<open>
  \<^verbatim>\<open>Path(p).suffix\<close> (pathlib up to Python 3.13):
  \<^verbatim>\<open>
  name = self.name
  i = name.rfind('.')
  if 0 < i < len(name) - 1:
      return name[i:]
  else:
      return ''
  \<close>
\<close>

definition suffix :: "string \<Rightarrow> string" where
  "suffix p =
     (let name = path_name p; i = rfind (CHR ''.'') name
      in if 0 < i \<and> i < int (length name) - 1 then drop (nat i) name else [])"

section \<open>Images, arrays and the libraries\<close>

text \<open>
  A PIL image: its mode, its size and its 8-bit samples, \<open>sample img y x k\<close> being band
  \<open>k\<close> of the pixel in row \<open>y\<close> and column \<open>x\<close>. The mode fixes the number of bands.
\<close>

datatype mode = Mode_1 | Mode_L | Mode_P | RGB | RGBA | CMYK | YCbCr | LAB | HSV | Mode_I | Mode_F

fun bands :: "mode \<Rightarrow> nat" where
  "bands RGB = 3"
| "bands YCbCr = 3"
| "bands LAB = 3"
| "bands HSV = 3"
| "bands RGBA = 4"
| "bands CMYK = 4"
| "bands _ = 1"

record image =
  mode :: mode
  width :: nat
  height :: nat
  sample :: "nat \<Rightarrow> nat \<Rightarrow> nat \<Rightarrow> 8 word"

text \<open>
  A numpy array: its dtype, its shape and its elements by index (only indices inside the
  shape are ever read). Elements are rationals: the samples \<open>0..255\<close> are exact in
  float32, the quotient by 255.0 is kept exact where numpy rounds it to the nearest
  float32.
\<close>

datatype dtype = uint8 | float32

record array3 =
  dtype3 :: dtype
  shape3 :: "nat \<times> nat \<times> nat"
  elem3 :: "nat \<Rightarrow> nat \<Rightarrow> nat \<Rightarrow> rat"

record array4 =
  dtype4 :: dtype
  shape4 :: "nat \<times> nat \<times> nat \<times> nat"
  elem4 :: "nat \<Rightarrow> nat \<Rightarrow> nat \<Rightarrow> nat \<Rightarrow> rat"

text \<open>
  \<^verbatim>\<open>np.array(image)\<close> of a multi-band image has shape (height, width, bands) and
  dtype uint8.
\<close>

definition np_array :: "image \<Rightarrow> array3" where
  "np_array img =
     \<lparr> dtype3 = uint8,
       shape3 = (height img, width img, bands (mode img)),
       elem3 = (\<lambda>y x k. of_nat (unat (sample img y x k))) \<rparr>"

definition astype_float32 :: "array3 \<Rightarrow> array3" where
  "astype_float32 a = a \<lparr> dtype3 := float32 \<rparr>"

text \<open>\<^verbatim>\<open>a / 255.0\<close> on a float32 array: elementwise, the dtype stays float32.\<close>

definition divide_255 :: "array3 \<Rightarrow> array3" where
  "divide_255 a = a \<lparr> elem3 := (\<lambda>i j k. elem3 a i j k / 255) \<rparr>"

text \<open>\<^verbatim>\<open>np.transpose(a, (2, 0, 1))\<close>: axis \<open>n\<close> of the result is axis \<open>(2, 0, 1)[n]\<close> of \<open>a\<close>.\<close>

definition transpose_2_0_1 :: "array3 \<Rightarrow> array3" where
  "transpose_2_0_1 a =
     (case shape3 a of (d0, d1, d2) \<Rightarrow>
        \<lparr> dtype3 = dtype3 a, shape3 = (d2, d0, d1), elem3 = (\<lambda>i j k. elem3 a j k i) \<rparr>)"

text \<open>\<^verbatim>\<open>np.expand_dims(a, axis=0)\<close>.\<close>

definition expand_dims_0 :: "array3 \<Rightarrow> array4" where
  "expand_dims_0 a =
     (case shape3 a of (d0, d1, d2) \<Rightarrow>
        \<lparr> dtype4 = dtype3 a, shape4 = (1, d0, d1, d2), elem4 = (\<lambda>n i j k. elem3 a i j k) \<rparr>)"

text \<open>
  An ONNX Runtime inference session. \<open>get_inputs\<close> lists the name and the declared shape
  of every model input; a dimension is an integer or symbolic. \<open>run name data\<close> is
  \<^verbatim>\<open>session.run(None, {name: data})[0][0]\<close>, the score vector of the first output.
\<close>

datatype dim = Dim int | Symbolic string

record session =
  get_inputs :: "(string \<times> dim list) list"
  run :: "string \<Rightarrow> array4 \<Rightarrow> string + rat list"

text \<open>
  What the code reaches outside itself: the file system, ONNX Runtime, PIL, numpy's sort
  and pydantic's error report. A failure is the message of the exception the library
  raises.
  \<^item> \<open>path_exists p\<close>: \<^verbatim>\<open>Path(p).exists()\<close>
  \<^item> \<open>readlines p\<close>: \<^verbatim>\<open>open(p, 'r').readlines()\<close>
  \<^item> \<open>InferenceSession p\<close>: \<^verbatim>\<open>ort.InferenceSession(p, providers=['CPUExecutionProvider'])\<close>
  \<^item> \<open>Image_open bytes\<close>: \<^verbatim>\<open>Image.open(io.BytesIO(bytes))\<close>
  \<^item> \<open>convert img m\<close>: \<^verbatim>\<open>img.convert(m)\<close>
  \<^item> \<open>resize img (w, h)\<close>: \<^verbatim>\<open>img.resize((w, h), resample=Image.BILINEAR)\<close>
  \<^item> \<open>argsort a\<close>: \<^verbatim>\<open>np.argsort(a)\<close>, the indices that sort \<open>a\<close>; which of the
    valid orders numpy returns on equal values is its own business
  \<^item> \<open>pydantic_report c\<close>: \<^verbatim>\<open>str(e)\<close> of the \<^verbatim>\<open>ValidationError\<close> that pydantic raises
    when the confidence \<open>c\<close> of a \<^verbatim>\<open>PredictionResult\<close> is outside its bounds
\<close>

record world =
  path_exists :: "string \<Rightarrow> bool"
  readlines :: "string \<Rightarrow> string + string list"
  InferenceSession :: "string \<Rightarrow> string + session"
  Image_open :: "8 word list \<Rightarrow> string + image"
  convert :: "image \<Rightarrow> mode \<Rightarrow> string + image"
  resize :: "image \<Rightarrow> int \<times> int \<Rightarrow> string + image"
  argsort :: "rat list \<Rightarrow> nat list"
  pydantic_report :: "rat \<Rightarrow> string"

section \<open>Prediction results (\<^verbatim>\<open>app/schemas.py\<close>)\<close>

record PredictionResult =
  class_name :: string
  confidence :: rat

text \<open>
  Constructing a \<^verbatim>\<open>PredictionResult\<close> runs pydantic's validation of
  \<^verbatim>\<open>Field(..., ge=0.0, le=1.0)\<close>; a value outside raises \<^verbatim>\<open>ValidationError\<close>, whose
  \<^verbatim>\<open>str(e)\<close> is the report pydantic writes for the rejected value.
\<close>

definition new_PredictionResult :: "world \<Rightarrow> string \<Rightarrow> rat \<Rightarrow> exn + PredictionResult" where
  "new_PredictionResult w label c =
     (if 0 \<le> c \<and> c \<le> 1 then Inr \<lparr> class_name = label, confidence = c \<rparr>
      else Inl (ValidationError (pydantic_report w c)))"

section \<open>Python and numpy primitives used by the ranking step\<close>

text \<open>\<^verbatim>\<open>round(x, n)\<close> on a float: to the nearest multiple of \<open>10^-n\<close>, ties to even.\<close>

definition round_half_even :: "rat \<Rightarrow> int" where
  "round_half_even x =
     (let f = \<lfloor>x\<rfloor>; d = x - of_int f
      in if d < 1 / 2 then f else if 1 / 2 < d then f + 1
         else if even f then f else f + 1)"

definition py_round :: "rat \<Rightarrow> nat \<Rightarrow> rat" where
  "py_round x n = of_int (round_half_even (x * 10 ^ n)) / 10 ^ n"

text \<open>\<^verbatim>\<open>str(idx)\<close> of a non-negative integer: its decimal digits.\<close>

definition digit_char :: "nat \<Rightarrow> char" where
  "digit_char d = char_of (48 + d)"

function str_nat :: "nat \<Rightarrow> string" where
  "str_nat n = (if n < 10 then [digit_char n] else str_nat (n div 10) @ [digit_char (n mod 10)])"
  by pat_completeness auto
termination
  by (relation "measure id") auto

declare str_nat.simps [simp del]

text \<open>
  What numpy promises of \<^verbatim>\<open>np.argsort(a)\<close>: the result holds every index of \<open>a\<close> once,
  and the values of \<open>a\<close> at these indices ascend. With the default sort kind it promises
  no order among the indices of equal values.
\<close>

definition ascending_indices :: "rat list \<Rightarrow> nat list \<Rightarrow> bool" where
  "ascending_indices a idxs \<longleftrightarrow>
     sort idxs = [0..<length a] \<and> sorted (map (\<lambda>i. a ! i) idxs)"

text \<open>The slice \<^verbatim>\<open>xs[:k]\<close>; a negative \<open>k\<close> counts from the end.\<close>

definition slice_to :: "'a list \<Rightarrow> int \<Rightarrow> 'a list" where
  "slice_to xs k = (if 0 \<le> k then take (nat k) xs else take (length xs - nat (- k)) xs)"

section \<open>The ranking step of \<^verbatim>\<open>ModelPredictor.predict\<close> (\<^verbatim>\<open>app/litemodel.py\<close>)\<close>

text \<open>
  \<^verbatim>\<open>
  top_k = min(len(predictions_raw), settings.max_predictions)
  top_indices = np.argsort(predictions_raw)[::-1][:top_k]
  \<close>
\<close>

definition top_indices :: "world \<Rightarrow> settings \<Rightarrow> rat list \<Rightarrow> nat list" where
  "top_indices w s predictions_raw =
     (let top_k = min (int (length predictions_raw)) (max_predictions s)
      in slice_to (rev (argsort w predictions_raw)) top_k)"

text \<open>
  \<^verbatim>\<open>
  for idx in top_indices:
      confidence = float(predictions_raw[idx])
      if confidence >= settings.model_confidence_threshold:
          label = self._class_names[idx] if idx < len(self._class_names) else str(idx)
          formatted_predictions.append(PredictionResult(
              class_name=label, confidence=round(confidence, 4)))
  \<close>
  The accumulator is \<^verbatim>\<open>formatted_predictions\<close>; an exception of the constructor ends
  the loop. The indices numpy returns are indices of \<open>predictions_raw\<close>.
\<close>

definition label_of :: "string list \<Rightarrow> nat \<Rightarrow> string" where
  "label_of names idx = (if idx < length names then names ! idx else str_nat idx)"

fun format_predictions ::
  "world \<Rightarrow> settings \<Rightarrow> string list \<Rightarrow> rat list \<Rightarrow> nat list \<Rightarrow> PredictionResult list
     \<Rightarrow> exn + PredictionResult list" where
  "format_predictions w s names predictions_raw [] formatted = Inr formatted"
| "format_predictions w s names predictions_raw (idx # rest) formatted =
     (let c = predictions_raw ! idx
      in if model_confidence_threshold s \<le> c then
           (let label = label_of names idx
            in case new_PredictionResult w label (py_round c 4) of
                 Inl e \<Rightarrow> Inl e
               | Inr p \<Rightarrow> format_predictions w s names predictions_raw rest (formatted @ [p]))
         else format_predictions w s names predictions_raw rest formatted)"

definition rank :: "world \<Rightarrow> settings \<Rightarrow> string list \<Rightarrow> rat list \<Rightarrow> exn + PredictionResult list" where
  "rank w s names predictions_raw =
     format_predictions w s names predictions_raw (top_indices w s predictions_raw) []"

section \<open>The model predictor (\<^verbatim>\<open>app/litemodel.py\<close>)\<close>

text \<open>
  The attributes of the one \<^verbatim>\<open>ModelPredictor\<close> instance (\<^verbatim>\<open>__new__\<close> hands out the
  same object every time), without their leading underscore. \<open>initial_predictor\<close> holds
  the class-level defaults the instance starts from.
\<close>

record predictor =
  session :: "session option"
  class_names :: "string list"
  input_name :: string
  input_height :: int
  input_width :: int
  model_loaded :: bool

definition initial_predictor :: predictor where
  "initial_predictor =
     \<lparr> session = None, class_names = [], input_name = [], input_height = 224,
       input_width = 224, model_loaded = False \<rparr>"

text \<open>\<^verbatim>\<open>shape[n] if isinstance(shape[n], int) else 224\<close>\<close>

fun dim_or_224 :: "dim \<Rightarrow> int" where
  "dim_or_224 (Dim n) = n"
| "dim_or_224 (Symbolic _) = 224"

text \<open>
  \<^verbatim>\<open>_load_model\<close>. The result is the predictor as the call leaves it and the exception
  it raised, if any: the assignments made before a failing step stay. The paths are
  used as configured (\<^verbatim>\<open>Path\<close> prints \<^verbatim>\<open>./models/x\<close> as \<^verbatim>\<open>models/x\<close>; the model
  does not).
\<close>

definition load_model :: "world \<Rightarrow> settings \<Rightarrow> predictor \<Rightarrow> predictor \<times> exn option" where
  "load_model w s p =
     (if \<not> path_exists w (model_path s)
      then (p, Some (FileNotFoundError (''Model file not found: '' @ model_path s)))
      else
        case InferenceSession w (model_path s) of
          Inl msg \<Rightarrow> (p, Some (LibraryError msg))
        | Inr sess \<Rightarrow>
            let p1 = p \<lparr> session := Some sess \<rparr> in
            case get_inputs sess of
              [] \<Rightarrow> (p1, Some (IndexError ''list index out of range''))
            | (name, shape) # _ \<Rightarrow>
                let p2 = p1 \<lparr> input_name := name \<rparr> in
                if length shape \<le> 2 then (p2, Some (IndexError ''list index out of range''))
                else
                  let p3 = p2 \<lparr> input_height := dim_or_224 (shape ! 2) \<rparr> in
                  if length shape \<le> 3 then (p3, Some (IndexError ''list index out of range''))
                  else
                    let p4 = p3 \<lparr> input_width := dim_or_224 (shape ! 3) \<rparr> in
                    if path_exists w (class_names_path s) then
                      (case readlines w (class_names_path s) of
                         Inl msg \<Rightarrow> (p4, Some (LibraryError msg))
                       | Inr lines \<Rightarrow>
                           (p4 \<lparr> class_names := map strip lines, model_loaded := True \<rparr>, None))
                    else (p4 \<lparr> class_names := [], model_loaded := True \<rparr>, None))"

text \<open>
  \<^verbatim>\<open>ModelPredictor()\<close>: \<^verbatim>\<open>__new__\<close> returns the instance, \<^verbatim>\<open>__init__\<close> loads the model
  unless it is loaded.
\<close>

definition ModelPredictor :: "world \<Rightarrow> settings \<Rightarrow> predictor \<Rightarrow> predictor \<times> exn option" where
  "ModelPredictor w s p = (if \<not> model_loaded p then load_model w s p else (p, None))"

definition is_loaded :: "predictor \<Rightarrow> bool" where
  "is_loaded p \<longleftrightarrow> model_loaded p \<and> session p \<noteq> None"

text \<open>Steps 1 to 5 of \<^verbatim>\<open>predict\<close>: the input tensor made from the image.\<close>

definition preprocess :: "world \<Rightarrow> predictor \<Rightarrow> image \<Rightarrow> exn + array4" where
  "preprocess w p img =
     (case (if mode img \<noteq> RGB then convert w img RGB else Inr img) of
        Inl msg \<Rightarrow> Inl (LibraryError msg)
      | Inr rgb \<Rightarrow>
          (case resize w rgb (input_width p, input_height p) of
             Inl msg \<Rightarrow> Inl (LibraryError msg)
           | Inr image_resized \<Rightarrow>
               let image_np = astype_float32 (np_array image_resized);
                   input_data = divide_255 image_np;
                   input_data = transpose_2_0_1 input_data;
                   input_data = expand_dims_0 input_data
               in Inr input_data))"

text \<open>
  \<^verbatim>\<open>ModelPredictor.predict\<close>. It assigns to no attribute, so the predictor is only read.
  Of the returned pair the list of predictions is kept; the elapsed time is a reading
  of the clock.
\<close>

definition predictor_predict ::
  "world \<Rightarrow> settings \<Rightarrow> predictor \<Rightarrow> image \<Rightarrow> exn + PredictionResult list" where
  "predictor_predict w s p img =
     (if \<not> is_loaded p then Inl (RuntimeError ''Model not loaded'')
      else
        case session p of
          None \<Rightarrow> Inl (RuntimeError ''Model not loaded'')
        | Some sess \<Rightarrow>
            (case preprocess w p img of
               Inl e \<Rightarrow> Inl e
             | Inr input_data \<Rightarrow>
                 (case run sess (input_name p) input_data of
                    Inl msg \<Rightarrow> Inl (LibraryError msg)
                  | Inr predictions_raw \<Rightarrow> rank w s (class_names p) predictions_raw)))"

datatype model_info = Not_loaded | Loaded string nat "int list"

definition get_model_info :: "predictor \<Rightarrow> model_info" where
  "get_model_info p =
     (if \<not> is_loaded p then Not_loaded
      else Loaded ''YOLO11l Classification (ONNX)'' (length (class_names p))
             [1, 3, input_height p, input_width p])"

text \<open>
  The operations on the predictor, each in the world it runs in, and the predictor they
  leave behind. Only the constructor can assign to an attribute.
\<close>

datatype call = Construct world | Predict world image | Is_loaded | Get_model_info

fun after_call :: "settings \<Rightarrow> predictor \<Rightarrow> call \<Rightarrow> predictor" where
  "after_call s p (Construct w) = fst (ModelPredictor w s p)"
| "after_call s p (Predict w img) = p"
| "after_call s p Is_loaded = p"
| "after_call s p Get_model_info = p"

fun after_calls :: "settings \<Rightarrow> predictor \<Rightarrow> call list \<Rightarrow> predictor" where
  "after_calls s p [] = p"
| "after_calls s p (c # cs) = after_calls s (after_call s p c) cs"

section \<open>The prediction endpoint (\<^verbatim>\<open>app/main.py\<close>)\<close>

record upload =
  filename :: string
  contents :: "8 word list"

text \<open>\<^verbatim>\<open>PredictionResponse\<close>, without the rounded elapsed time.\<close>

record PredictionResponse =
  success :: bool
  predictions :: "PredictionResult list"
  model_version :: string

text \<open>Step 3 of the handler: open the image and convert it to RGB.\<close>

definition load_image :: "world \<Rightarrow> 8 word list \<Rightarrow> string + image" where
  "load_image w bytes =
     (case Image_open w bytes of
        Inl msg \<Rightarrow> Inl msg
      | Inr img \<Rightarrow> if mode img \<noteq> RGB then convert w img RGB else Inr img)"

text \<open>
  The body of the outer \<^verbatim>\<open>try\<close> of \<^verbatim>\<open>predict\<close>. The Prometheus counters the handler
  updates are not part of the model.
\<close>

definition predict_try :: "world \<Rightarrow> settings \<Rightarrow> predictor \<Rightarrow> upload \<Rightarrow> exn + PredictionResponse" where
  "predict_try w s p file =
     (let file_ext = lower (suffix (filename file))
      in if file_ext \<notin> set (allowed_extensions s)
         then Inl (HTTPException 400 (Invalid_file_type (allowed_extensions s)))
         else
           let bytes = contents file
           in if max_upload_size s < int (length bytes)
              then Inl (HTTPException 413 (File_too_large (max_upload_size s)))
              else
                case load_image w bytes of
                  Inl msg \<Rightarrow> Inl (HTTPException 400 (Message (''Invalid image file: '' @ msg)))
                | Inr img \<Rightarrow>
                    (case predictor_predict w s p img of
                       Inl e \<Rightarrow> Inl e
                     | Inr preds \<Rightarrow>
                         Inr \<lparr> success = True, predictions = preds,
                               model_version = ''yolo11l-cls'' \<rparr>))"

text \<open>
  \<^verbatim>\<open>predict\<close> with its two handlers: an \<^verbatim>\<open>HTTPException\<close> is raised again as it is,
  any other exception becomes \<^verbatim>\<open>HTTPException(status_code=500, detail=str(e))\<close>.
\<close>

definition predict :: "world \<Rightarrow> settings \<Rightarrow> predictor \<Rightarrow> upload \<Rightarrow> exn + PredictionResponse" where
  "predict w s p file =
     (case predict_try w s p file of
        Inr response \<Rightarrow> Inr response
      | Inl (HTTPException c d) \<Rightarrow> Inl (HTTPException c d)
      | Inl e \<Rightarrow> Inl (HTTPException 500 (Message (str_exn e))))"

text \<open>
  The response the client receives. \<open>Detail_body d\<close> is the JSON object
  \<^verbatim>\<open>{"detail": d}\<close> that FastAPI's handler of \<^verbatim>\<open>HTTPException\<close> sends with the exception's
  status code; \<open>Error_body\<close> is the \<^verbatim>\<open>ErrorResponse\<close> of \<^verbatim>\<open>app/schemas.py\<close>.
\<close>

datatype body =
    Prediction_body PredictionResponse
  | Detail_body detail
  | Error_body bool string "string option"

record response =
  status_code :: int
  content :: body

definition internal_error_handler :: "exn \<Rightarrow> response" where
  "internal_error_handler exc =
     \<lparr> status_code = 500,
       content = Error_body False ''Internal Server Error'' (Some ''An unexpected error occurred'') \<rparr>"

text \<open>
  How the framework answers \<^verbatim>\<open>POST /predict\<close>. A handler registered with
  \<^verbatim>\<open>@app.exception_handler(500)\<close> is installed as the handler of the outermost
  server-error middleware, which sees the exceptions no other handler took; an
  \<^verbatim>\<open>HTTPException\<close>, whatever its status code, is taken before that by FastAPI's
  own handler of \<^verbatim>\<open>HTTPException\<close>.
\<close>

definition post_predict :: "world \<Rightarrow> settings \<Rightarrow> predictor \<Rightarrow> upload \<Rightarrow> response" where
  "post_predict w s p file =
     (case predict w s p file of
        Inr r \<Rightarrow> \<lparr> status_code = 200, content = Prediction_body r \<rparr>
      | Inl (HTTPException c d) \<Rightarrow> \<lparr> status_code = c, content = Detail_body d \<rparr>
      | Inl e \<Rightarrow> internal_error_handler e)"

section \<open>Example inputs\<close>

text \<open>
  Concrete inputs on which the theorems below are instantiated: a one-pixel RGB image, a
  session of a model with a fixed 2x2 input, a world in which the model file exists and
  the label file does not, and the predictor that loading leaves in that world. The
  \<open>resize\<close> of the example world repeats the first pixel; it stands in for PIL's
  bilinear filter only in that it returns an image of the requested size. Its
  \<open>pydantic_report\<close> is one line where pydantic writes several.
\<close>

definition example_image :: image where
  "example_image =
     \<lparr> mode = RGB, width = 1, height = 1,
       sample = (\<lambda>y x k. if k = 0 then 255 else if k = 1 then 0 else 51) \<rparr>"

definition example_session :: session where
  "example_session =
     \<lparr> get_inputs = [(''images'', [Symbolic ''batch'', Dim 3, Dim 2, Dim 2])],
       run = (\<lambda>name data. Inr [1 / 10, 9 / 10, 3 / 10]) \<rparr>"

text \<open>
  An \<open>argsort\<close> that leaves equal values in index order; on two equal scores numpy
  returns the indices in this order too.
\<close>

definition stable_argsort :: "rat list \<Rightarrow> nat list" where
  "stable_argsort a = sort_key (\<lambda>i. a ! i) [0..<length a]"

definition example_world :: world where
  "example_world =
     \<lparr> path_exists = (\<lambda>p. p = ''./models/yolo11l-cls.onnx''),
       readlines = (\<lambda>p. Inl ''No such file or directory''),
       InferenceSession = (\<lambda>p. Inr example_session),
       Image_open = (\<lambda>bytes. if bytes = [] then Inl ''cannot identify image file''
                               else Inr example_image),
       convert = (\<lambda>img m. Inr (img \<lparr> mode := m \<rparr>)),
       resize = (\<lambda>img (w, h).
                   if 0 < w \<and> 0 < h
                   then Inr (img \<lparr> width := nat w, height := nat h,
                                   sample := (\<lambda>y x k. sample img 0 0 k) \<rparr>)
                   else Inl ''height and width must be > 0''),
       argsort = stable_argsort,
       pydantic_report = (\<lambda>c. if 1 < c then ''confidence: Input should be less than or equal to 1''
                               else ''confidence: Input should be greater than or equal to 0'') \<rparr>"

definition example_predictor :: predictor where
  "example_predictor =
     \<lparr> session = Some example_session, class_names = [], input_name = ''images'',
       input_height = 2, input_width = 2, model_loaded = True \<rparr>"

text \<open>A session whose run fails, and one whose model returns a score above 1.\<close>

definition failing_session :: session where
  "failing_session = example_session \<lparr> run := (\<lambda>name data. Inl ''Got invalid dimensions for input'') \<rparr>"

definition logit_session :: session where
  "logit_session = example_session \<lparr> run := (\<lambda>name data. Inr [3 / 2, 1 / 10]) \<rparr>"

text \<open>
  The example world with a label file of three lines, and one whose model declares no
  input.
\<close>

definition labelled_world :: world where
  "labelled_world =
     example_world
       \<lparr> path_exists := (\<lambda>p. True),
         readlines := (\<lambda>p. Inr [''cat'' @ [CHR 0x0A], '' dog '' @ [CHR 0x0A], [CHR 0x0A]]) \<rparr>"

definition headless_world :: world where
  "headless_world =
     example_world \<lparr> InferenceSession := (\<lambda>p. Inr (example_session \<lparr> get_inputs := [] \<rparr>)) \<rparr>"

section \<open>Rounding\<close>

lemma round_half_even_mono: "x \<le> y \<Longrightarrow> round_half_even x \<le> round_half_even y"
proof -
  assume xy: "x \<le> y"
  have fl: "\<lfloor>x\<rfloor> \<le> \<lfloor>y\<rfloor>" using xy by (rule floor_mono)
  have bx: "round_half_even x \<le> \<lfloor>x\<rfloor> + 1" and by': "\<lfloor>y\<rfloor> \<le> round_half_even y"
    by (auto simp: round_half_even_def Let_def)
  show ?thesis
  proof (cases "\<lfloor>x\<rfloor> = \<lfloor>y\<rfloor>")
    case True
    then have "x - of_int \<lfloor>x\<rfloor> \<le> y - of_int \<lfloor>y\<rfloor>" using xy by simp
    then show ?thesis using True by (auto simp: round_half_even_def Let_def)
  next
    case False
    then have "\<lfloor>x\<rfloor> + 1 \<le> \<lfloor>y\<rfloor>" using fl by linarith
    then show ?thesis using bx by' by linarith
  qed
qed

lemma py_round_mono: "x \<le> y \<Longrightarrow> py_round x n \<le> py_round y n"
  unfolding py_round_def
  by (intro divide_right_mono) (auto intro!: round_half_even_mono mult_right_mono)

lemma round_half_even_of_int [simp]: "round_half_even (of_int k) = k"
  by (simp add: round_half_even_def)

lemma py_round_fixed: "py_round (of_int k / 10 ^ n) n = of_int k / 10 ^ n"
  by (simp add: py_round_def)

lemma py_round_0 [simp]: "py_round 0 n = 0"
  using py_round_fixed [of 0 n] by simp

lemma py_round_1 [simp]: "py_round 1 n = 1"
  using py_round_fixed [of "10 ^ n" n] by simp

lemma py_round_unit: "0 \<le> x \<Longrightarrow> x \<le> 1 \<Longrightarrow> 0 \<le> py_round x n \<and> py_round x n \<le> 1"
  using py_round_mono [of 0 x n] py_round_mono [of x 1 n] by simp

section \<open>The ranking step: what it returns\<close>

text \<open>
  The loop either returns the accumulator extended by one result per index that passes
  the threshold, in order, or stops at the first such index whose rounded score the
  constructor rejects, with the error raised for that score.
\<close>

lemma format_predictions_eq:
  "format_predictions w s names raw idxs acc =
     (case filter (\<lambda>i. model_confidence_threshold s \<le> raw ! i
                       \<and> \<not> (0 \<le> py_round (raw ! i) 4 \<and> py_round (raw ! i) 4 \<le> 1)) idxs of
        [] \<Rightarrow> Inr (acc @ map (\<lambda>i. \<lparr> class_name = label_of names i, confidence = py_round (raw ! i) 4 \<rparr>)
                          (filter (\<lambda>i. model_confidence_threshold s \<le> raw ! i) idxs))
      | j # _ \<Rightarrow> Inl (ValidationError (pydantic_report w (py_round (raw ! j) 4))))"
proof (induction idxs arbitrary: acc)
  case Nil
  then show ?case by simp
next
  case (Cons idx rest)
  show ?case
  proof (cases "model_confidence_threshold s \<le> raw ! idx")
    case False
    then show ?thesis using Cons.IH [of acc] by (simp split: list.splits)
  next
    case thr: True
    show ?thesis
    proof (cases "0 \<le> py_round (raw ! idx) 4 \<and> py_round (raw ! idx) 4 \<le> 1")
      case True
      then show ?thesis
        using thr Cons.IH [of "acc @ [\<lparr> class_name = label_of names idx, confidence = py_round (raw ! idx) 4 \<rparr>]"]
        by (simp add: new_PredictionResult_def split: list.splits)
    next
      case False
      then show ?thesis using thr by (auto simp add: new_PredictionResult_def)
    qed
  qed
qed

lemma rank_eq:
  "rank w s names raw =
     (case filter (\<lambda>i. model_confidence_threshold s \<le> raw ! i
                       \<and> \<not> (0 \<le> py_round (raw ! i) 4 \<and> py_round (raw ! i) 4 \<le> 1))
             (top_indices w s raw) of
        [] \<Rightarrow> Inr (map (\<lambda>i. \<lparr> class_name = label_of names i, confidence = py_round (raw ! i) 4 \<rparr>)
                     (filter (\<lambda>i. model_confidence_threshold s \<le> raw ! i) (top_indices w s raw)))
      | j # _ \<Rightarrow> Inl (ValidationError (pydantic_report w (py_round (raw ! j) 4))))"
  unfolding rank_def by (subst format_predictions_eq) (simp split: list.splits)

lemma rank_Inr:
  "rank w s names raw = Inr out \<Longrightarrow>
     out = map (\<lambda>i. \<lparr> class_name = label_of names i, confidence = py_round (raw ! i) 4 \<rparr>)
               (filter (\<lambda>i. model_confidence_threshold s \<le> raw ! i) (top_indices w s raw))"
  by (simp add: rank_eq split: list.splits)

lemma rank_accepts:
  assumes "\<forall>i \<in> set (top_indices w s raw). model_confidence_threshold s \<le> raw ! i \<longrightarrow>
             0 \<le> py_round (raw ! i) 4 \<and> py_round (raw ! i) 4 \<le> 1"
  shows "rank w s names raw
           = Inr (map (\<lambda>i. \<lparr> class_name = label_of names i, confidence = py_round (raw ! i) 4 \<rparr>)
                      (filter (\<lambda>i. model_confidence_threshold s \<le> raw ! i) (top_indices w s raw)))"
proof -
  have "filter (\<lambda>i. model_confidence_threshold s \<le> raw ! i
                       \<and> \<not> (0 \<le> py_round (raw ! i) 4 \<and> py_round (raw ! i) 4 \<le> 1))
             (top_indices w s raw) = []"
    using assms by (simp only: filter_empty_conv) blast
  then show ?thesis by (simp only: rank_eq list.case)
qed

lemma rank_Inl:
  assumes "rank w s names raw = Inl e"
  shows "\<exists>j. j \<in> set (top_indices w s raw) \<and> model_confidence_threshold s \<le> raw ! j
             \<and> \<not> (0 \<le> py_round (raw ! j) 4 \<and> py_round (raw ! j) 4 \<le> 1)
             \<and> e = ValidationError (pydantic_report w (py_round (raw ! j) 4))"
proof -
  let ?bad = "\<lambda>i. model_confidence_threshold s \<le> raw ! i
                       \<and> \<not> (0 \<le> py_round (raw ! i) 4 \<and> py_round (raw ! i) 4 \<le> 1)"
  obtain j rest where f: "filter ?bad (top_indices w s raw) = j # rest"
    and e: "e = ValidationError (pydantic_report w (py_round (raw ! j) 4))"
    using assms by (auto simp: rank_eq split: list.splits)
  have "j \<in> set (filter ?bad (top_indices w s raw))" by (simp only: f list.set insertI1)
  then have "j \<in> set (top_indices w s raw) \<and> ?bad j" by simp
  then show ?thesis using e by blast
qed

lemma rank_rejects:
  assumes "i \<in> set (top_indices w s raw)" and "model_confidence_threshold s \<le> raw ! i"
    and "\<not> (0 \<le> py_round (raw ! i) 4 \<and> py_round (raw ! i) 4 \<le> 1)"
  shows "\<exists>e. rank w s names raw = Inl e"
proof -
  let ?bad = "\<lambda>i. model_confidence_threshold s \<le> raw ! i
                       \<and> \<not> (0 \<le> py_round (raw ! i) 4 \<and> py_round (raw ! i) 4 \<le> 1)"
  have "i \<in> set (filter ?bad (top_indices w s raw))" using assms by simp
  then have "filter ?bad (top_indices w s raw) \<noteq> []" by (metis empty_iff list.set(1))
  then obtain j rest where "filter ?bad (top_indices w s raw) = j # rest"
    using list.exhaust by blast
  then show ?thesis by (simp only: rank_eq list.case) blast
qed

text \<open>What follows from numpy's promise about \<open>argsort\<close>, and that a stable sort keeps it.\<close>

lemma ascending_indices_set: "ascending_indices a idxs \<Longrightarrow> set idxs = {..<length a}"
proof -
  assume "ascending_indices a idxs"
  then have "sort idxs = [0..<length a]" by (simp add: ascending_indices_def)
  then have "set (sort idxs) = set [0..<length a]" by simp
  then show ?thesis by (simp add: lessThan_atLeast0)
qed

lemma ascending_indices_sorted: "ascending_indices a idxs \<Longrightarrow> sorted (map (\<lambda>i. a ! i) idxs)"
  by (simp add: ascending_indices_def)

lemma ascending_stable_argsort: "ascending_indices a (stable_argsort a)"
proof -
  have "sort (sort_key (\<lambda>i. a ! i) [0..<length a]) = [0..<length a]"
    by (rule sorted_distinct_set_unique) simp_all
  then show ?thesis by (simp add: ascending_indices_def stable_argsort_def)
qed

lemma length_slice_to: "0 \<le> k \<Longrightarrow> int (length (slice_to xs k)) \<le> k"
  by (simp add: slice_to_def)

lemma slice_to_take: "\<exists>n. slice_to xs k = take n xs"
  by (auto simp: slice_to_def)

lemma top_indices_take: "\<exists>n. top_indices w s raw = take n (rev (argsort w raw))"
  using slice_to_take unfolding top_indices_def Let_def by blast

lemma length_top_indices:
  "0 \<le> max_predictions s \<Longrightarrow> int (length (top_indices w s raw)) \<le> max_predictions s"
  using length_slice_to [of "min (int (length raw)) (max_predictions s)" "rev (argsort w raw)"]
  by (simp add: top_indices_def Let_def)

lemma set_top_indices:
  assumes "ascending_indices raw (argsort w raw)"
  shows "set (top_indices w s raw) \<subseteq> {..<length raw}"
proof -
  obtain n where "top_indices w s raw = take n (rev (argsort w raw))"
    using top_indices_take by blast
  then have "set (top_indices w s raw) \<subseteq> set (rev (argsort w raw))"
    using set_take_subset [of n "rev (argsort w raw)"] by simp
  then show ?thesis using ascending_indices_set [OF assms] by simp
qed

lemma descending_top_indices:
  assumes "ascending_indices raw (argsort w raw)"
  shows "sorted_wrt (\<lambda>x y. y \<le> x) (map (\<lambda>i. raw ! i) (top_indices w s raw))"
proof -
  obtain n where n: "top_indices w s raw = take n (rev (argsort w raw))"
    using top_indices_take by blast
  have "sorted (rev (map (\<lambda>i. raw ! i) (rev (argsort w raw))))"
    using ascending_indices_sorted [OF assms] by (simp add: rev_map)
  then have "sorted_wrt (\<lambda>x y. y \<le> x) (map (\<lambda>i. raw ! i) (rev (argsort w raw)))"
    by (simp add: sorted_wrt_rev)
  then have "sorted_wrt (\<lambda>x y. y \<le> x) (take n (map (\<lambda>i. raw ! i) (rev (argsort w raw))))"
    by (rule sorted_wrt_take)
  then show ?thesis by (simp add: n take_map)
qed

lemma rank_returns:
  assumes "ascending_indices raw (argsort w raw)" and "\<forall>x \<in> set raw. 0 \<le> x \<and> x \<le> 1"
  shows "\<exists>out. rank w s names raw = Inr out"
proof -
  have "0 \<le> py_round (raw ! i) 4 \<and> py_round (raw ! i) 4 \<le> 1" if "i \<in> set (top_indices w s raw)" for i
  proof -
    have "i < length raw" using that set_top_indices [OF assms(1), of s] by auto
    then have "raw ! i \<in> set raw" by simp
    then show ?thesis using assms(2) py_round_unit by blast
  qed
  then show ?thesis using rank_accepts [of w s raw names] by blast
qed

text \<open>
  C1 (amended). If \<open>argsort\<close> returns what numpy promises and every raw score lies in
  \<open>[0, 1]\<close>, the ranking step returns a list. Whenever it returns, whatever the order
  \<open>argsort\<close> gave, the list holds one result for each index among the top indices whose
  raw score is at least the threshold, in their order, and nothing for the others (no
  zero-filled entry), so it may be shorter than \<open>max_predictions\<close> or empty. When
  \<open>max_predictions\<close> is not negative the list has at most that many entries. The
  confidence of an entry is its raw score rounded to four decimals: it is at least the
  rounded threshold, hence at least the threshold itself when the threshold is a
  multiple of \<open>0.0001\<close>, as the default \<open>0.25\<close> is.
\<close>

theorem rank_threshold_top_k:
  "(ascending_indices raw (argsort w raw) \<and> (\<forall>x \<in> set raw. 0 \<le> x \<and> x \<le> 1) \<longrightarrow>
      (\<exists>res. rank w s names raw = Inr res))
   \<and> (rank w s names raw = Inr out \<longrightarrow>
        out = map (\<lambda>i. \<lparr> class_name = label_of names i, confidence = py_round (raw ! i) 4 \<rparr>)
                  (filter (\<lambda>i. model_confidence_threshold s \<le> raw ! i) (top_indices w s raw))
        \<and> (0 \<le> max_predictions s \<longrightarrow> int (length out) \<le> max_predictions s)
        \<and> (\<forall>p \<in> set out. py_round (model_confidence_threshold s) 4 \<le> confidence p)
        \<and> (\<forall>k. model_confidence_threshold s = of_int k / 10 ^ 4 \<longrightarrow>
              (\<forall>p \<in> set out. model_confidence_threshold s \<le> confidence p)))"
proof (intro conjI impI)
  assume "ascending_indices raw (argsort w raw) \<and> (\<forall>x \<in> set raw. 0 \<le> x \<and> x \<le> 1)"
  then show "\<exists>res. rank w s names raw = Inr res" using rank_returns by blast
next
  let ?t = "model_confidence_threshold s"
  let ?mk = "\<lambda>i. \<lparr> class_name = label_of names i, confidence = py_round (raw ! i) 4 \<rparr>"
  let ?kept = "filter (\<lambda>i. ?t \<le> raw ! i) (top_indices w s raw)"
  assume r: "rank w s names raw = Inr out"
  then show out: "out = map ?mk ?kept"
    by (rule rank_Inr)
  have conf: "py_round ?t 4 \<le> confidence p" if "p \<in> set out" for p
  proof -
    from that obtain i where "i \<in> set ?kept" "p = ?mk i" by (auto simp: out)
    then show ?thesis by (auto intro: py_round_mono)
  qed
  then show "\<forall>p \<in> set out. py_round ?t 4 \<le> confidence p" by blast
  show "\<forall>k. ?t = of_int k / 10 ^ 4 \<longrightarrow> (\<forall>p \<in> set out. ?t \<le> confidence p)"
  proof (intro allI impI ballI)
    fix k p
    assume t: "?t = of_int k / 10 ^ 4" and p: "p \<in> set out"
    have "py_round ?t 4 = ?t" unfolding t by (rule py_round_fixed)
    then show "?t \<le> confidence p" using conf [OF p] by simp
  qed
  assume m: "0 \<le> max_predictions s"
  have "length out \<le> length (top_indices w s raw)" by (simp add: out)
  then show "int (length out) \<le> max_predictions s"
    using length_top_indices [OF m, of w raw] by linarith
qed

theorem rank_threshold_top_k_witness:
  "ascending_indices [1 / 10, 9 / 10, 3 / 10] (argsort example_world [1 / 10, 9 / 10, 3 / 10])
   \<and> rank example_world default_settings [''cat'', ''dog''] [1 / 10, 9 / 10, 3 / 10]
       = Inr [\<lparr>class_name = ''dog'', confidence = 9 / 10\<rparr>,
              \<lparr>class_name = ''2'', confidence = 3 / 10\<rparr>]
   \<and> 0 \<le> max_predictions default_settings
   \<and> model_confidence_threshold default_settings = of_int 2500 / 10 ^ 4
   \<and> int (length [\<lparr>class_name = ''dog'', confidence = 9 / 10 :: rat\<rparr>,
                   \<lparr>class_name = ''2'', confidence = 3 / 10\<rparr>])
        \<le> max_predictions default_settings
   \<and> model_confidence_threshold default_settings
        \<le> confidence \<lparr>class_name = ''dog'', confidence = 9 / 10\<rparr>
   \<and> model_confidence_threshold default_settings
        \<le> confidence \<lparr>class_name = ''2'', confidence = 3 / 10\<rparr>"
proof -
  have a: "ascending_indices [1 / 10, 9 / 10, 3 / 10] (argsort example_world [1 / 10, 9 / 10, 3 / 10])"
    by (simp add: example_world_def ascending_stable_argsort)
  have u: "\<forall>x \<in> set [1 / 10, 9 / 10, 3 / 10 :: rat]. 0 \<le> x \<and> x \<le> 1"
    by simp
  have t: "model_confidence_threshold default_settings = of_int 2500 / 10 ^ 4"
    by (simp add: default_settings_def)
  have m: "0 \<le> max_predictions default_settings"
    by (simp add: default_settings_def)
  note T = rank_threshold_top_k
      [where raw = "[1 / 10, 9 / 10, 3 / 10]" and w = example_world and s = default_settings
         and names = "[''cat'', ''dog'']"
         and out = "[\<lparr>class_name = ''dog'', confidence = 9 / 10\<rparr>,
                     \<lparr>class_name = ''2'', confidence = 3 / 10\<rparr>]"]
  obtain res where res: "rank example_world default_settings [''cat'', ''dog''] [1 / 10, 9 / 10, 3 / 10]
      = Inr res"
    using T [THEN conjunct1] a u by blast
  have h: "rank example_world default_settings [''cat'', ''dog''] [1 / 10, 9 / 10, 3 / 10]
     = Inr [\<lparr>class_name = ''dog'', confidence = 9 / 10\<rparr>,
            \<lparr>class_name = ''2'', confidence = 3 / 10\<rparr>]"
    by code_simp
  have "\<forall>p \<in> set [\<lparr>class_name = ''dog'', confidence = 9 / 10\<rparr>,
                   \<lparr>class_name = ''2'', confidence = 3 / 10\<rparr>].
         model_confidence_threshold default_settings \<le> confidence p"
    and "int (length [\<lparr>class_name = ''dog'', confidence = 9 / 10 :: rat\<rparr>,
                   \<lparr>class_name = ''2'', confidence = 3 / 10\<rparr>])
        \<le> max_predictions default_settings"
    using T [THEN conjunct2] h t m
    by blast+
  then show ?thesis using a h t m by simp
qed

text \<open>
  The claim as first stated fails twice. With threshold \<open>0.25003\<close> the score
  \<open>0.25004\<close> passes and is returned as confidence \<open>0.25\<close>, below the threshold. With
  \<open>max_predictions = -1\<close> the slice \<^verbatim>\<open>[:-1]\<close> drops only the last index, and two
  results are returned. The scores of each vector differ, so \<open>argsort\<close> has one valid
  answer.
\<close>

theorem rank_threshold_top_k_counterexample:
  "rank example_world (default_settings\<lparr>model_confidence_threshold := 25003 / 100000\<rparr>) [] [25004 / 100000]
      = Inr [\<lparr>class_name = ''0'', confidence = 1 / 4\<rparr>]
   \<and> confidence \<lparr>class_name = ''0'', confidence = 1 / 4\<rparr>
        < model_confidence_threshold (default_settings\<lparr>model_confidence_threshold := 25003 / 100000\<rparr>)
   \<and> rank example_world (default_settings\<lparr>max_predictions := - 1\<rparr>) [] [9 / 10, 4 / 5, 1 / 10]
      = Inr [\<lparr>class_name = ''0'', confidence = 9 / 10\<rparr>,
             \<lparr>class_name = ''1'', confidence = 4 / 5\<rparr>]
   \<and> max_predictions (default_settings\<lparr>max_predictions := - 1\<rparr>)
        < int (length [\<lparr>class_name = ''0'', confidence = 9 / 10 :: rat\<rparr>,
                       \<lparr>class_name = ''1'', confidence = 4 / 5\<rparr>])"
  by code_simp

section \<open>The ranking step: order\<close>

text \<open>
  C2 (amended). If \<open>argsort\<close> returns what numpy promises, then whenever the ranking
  step returns, its results are in descending order of confidence, and the class indices
  they come from are in descending order of raw score. The order among classes of
  exactly equal score is the one \<open>argsort\<close> leaves; nothing is stated about it.
\<close>

theorem rank_sorted_descending:
  assumes "ascending_indices raw (argsort w raw)" and "rank w s names raw = Inr out"
  shows "sorted_wrt (\<lambda>p q. confidence q \<le> confidence p) out
       \<and> (\<exists>idxs. out = map (\<lambda>i. \<lparr> class_name = label_of names i, confidence = py_round (raw ! i) 4 \<rparr>) idxs
             \<and> sorted_wrt (\<lambda>i j. raw ! j \<le> raw ! i) idxs)"
proof -
  let ?t = "model_confidence_threshold s"
  let ?mk = "\<lambda>i. \<lparr> class_name = label_of names i, confidence = py_round (raw ! i) 4 \<rparr>"
  let ?kept = "filter (\<lambda>i. ?t \<le> raw ! i) (top_indices w s raw)"
  have out: "out = map ?mk ?kept"
    using assms(2) by (rule rank_Inr)
  have "sorted_wrt (\<lambda>i j. raw ! j \<le> raw ! i) (top_indices w s raw)"
    using descending_top_indices [OF assms(1), of s] by (simp add: sorted_wrt_map)
  then have kept: "sorted_wrt (\<lambda>i j. raw ! j \<le> raw ! i) ?kept"
    by (rule sorted_wrt_filter)
  then have "sorted_wrt (\<lambda>i j. py_round (raw ! j) 4 \<le> py_round (raw ! i) 4) ?kept"
    by (rule sorted_wrt_mono_rel [rotated]) (simp add: py_round_mono)
  then have "sorted_wrt (\<lambda>p q. confidence q \<le> confidence p) out"
    by (simp add: out sorted_wrt_map)
  then show ?thesis using out kept by blast
qed

theorem rank_sorted_descending_witness:
  "ascending_indices [1 / 2, 7 / 10, 3 / 10] (argsort example_world [1 / 2, 7 / 10, 3 / 10])
   \<and> rank example_world default_settings [] [1 / 2, 7 / 10, 3 / 10]
     = Inr [\<lparr>class_name = ''1'', confidence = 7 / 10\<rparr>,
            \<lparr>class_name = ''0'', confidence = 1 / 2\<rparr>,
            \<lparr>class_name = ''2'', confidence = 3 / 10\<rparr>]
   \<and> sorted_wrt (\<lambda>p q. confidence q \<le> confidence p)
        [\<lparr>class_name = ''1'', confidence = 7 / 10 :: rat\<rparr>,
         \<lparr>class_name = ''0'', confidence = 1 / 2\<rparr>,
         \<lparr>class_name = ''2'', confidence = 3 / 10\<rparr>]"
proof -
  have a: "ascending_indices [1 / 2, 7 / 10, 3 / 10] (argsort example_world [1 / 2, 7 / 10, 3 / 10])"
    by (simp add: example_world_def ascending_stable_argsort)
  have h: "rank example_world default_settings [] [1 / 2, 7 / 10, 3 / 10]
     = Inr [\<lparr>class_name = ''1'', confidence = 7 / 10\<rparr>,
            \<lparr>class_name = ''0'', confidence = 1 / 2\<rparr>,
            \<lparr>class_name = ''2'', confidence = 3 / 10\<rparr>]"
    by code_simp
  show ?thesis using rank_sorted_descending [OF a h] a h by blast
qed

text \<open>
  Two equal scores, for which numpy's \<open>argsort\<close> returns \<open>[0, 1]\<close> as the example world's
  does: class 1 is returned before class 0.
\<close>

theorem rank_sorted_descending_counterexample:
  "argsort example_world [1 / 2, 1 / 2] = [0, 1]
   \<and> rank example_world default_settings [] [1 / 2, 1 / 2]
     = Inr [\<lparr>class_name = ''1'', confidence = 1 / 2\<rparr>,
            \<lparr>class_name = ''0'', confidence = 1 / 2\<rparr>]"
  by code_simp


section \<open>The endpoint: order of the checks\<close>

lemma predict_try_extension:
  "lower (suffix (filename file)) \<notin> set (allowed_extensions s) \<Longrightarrow>
     predict_try w s p file = Inl (HTTPException 400 (Invalid_file_type (allowed_extensions s)))"
  by (simp add: predict_try_def Let_def)

lemma predict_try_size:
  "lower (suffix (filename file)) \<in> set (allowed_extensions s) \<Longrightarrow>
   max_upload_size s < int (length (contents file)) \<Longrightarrow>
     predict_try w s p file = Inl (HTTPException 413 (File_too_large (max_upload_size s)))"
  by (simp add: predict_try_def Let_def)

lemma predict_HTTPException:
  "predict_try w s p file = Inl (HTTPException c d) \<Longrightarrow> predict w s p file = Inl (HTTPException c d)"
  by (simp add: predict_def)

lemma post_predict_HTTP:
  "predict w s p file = Inl (HTTPException c d) \<Longrightarrow>
     post_predict w s p file = \<lparr> status_code = c, content = Detail_body d \<rparr>"
  by (simp add: post_predict_def)

text \<open>
  C4. The checks of \<^verbatim>\<open>predict\<close> run in order and stop at the first failure. When the
  lowered extension of the file name is not among the allowed extensions, the request
  fails with status 400 whatever the bytes, the libraries and the predictor are: neither
  the size nor the decoder is consulted, so an oversize file with a disallowed extension
  fails on the extension. Otherwise, when the number of bytes exceeds the maximum, the
  request fails with status 413 whatever the libraries and the predictor are: the bytes
  are not decoded.
\<close>

theorem predict_validation_order:
  "(lower (suffix fn) \<notin> set (allowed_extensions s) \<longrightarrow>
      (\<forall>bytes w p.
         predict w s p \<lparr> filename = fn, contents = bytes \<rparr>
           = Inl (HTTPException 400 (Invalid_file_type (allowed_extensions s)))
         \<and> status_code (post_predict w s p \<lparr> filename = fn, contents = bytes \<rparr>) = 400))
   \<and> (lower (suffix fn) \<in> set (allowed_extensions s) \<and> max_upload_size s < int (length bytes) \<longrightarrow>
      (\<forall>w p.
         predict w s p \<lparr> filename = fn, contents = bytes \<rparr>
           = Inl (HTTPException 413 (File_too_large (max_upload_size s)))
         \<and> status_code (post_predict w s p \<lparr> filename = fn, contents = bytes \<rparr>) = 413))"
proof (intro conjI impI allI)
  fix bytes' w p
  assume "lower (suffix fn) \<notin> set (allowed_extensions s)"
  then have "predict_try w s p \<lparr> filename = fn, contents = bytes' \<rparr>
      = Inl (HTTPException 400 (Invalid_file_type (allowed_extensions s)))"
    by (simp add: predict_try_extension)
  then show e: "predict w s p \<lparr> filename = fn, contents = bytes' \<rparr>
      = Inl (HTTPException 400 (Invalid_file_type (allowed_extensions s)))"
    by (rule predict_HTTPException)
  show "status_code (post_predict w s p \<lparr> filename = fn, contents = bytes' \<rparr>) = 400"
    by (simp add: post_predict_def e)
next
  fix w p
  assume "lower (suffix fn) \<in> set (allowed_extensions s) \<and> max_upload_size s < int (length bytes)"
  then have "predict_try w s p \<lparr> filename = fn, contents = bytes \<rparr>
      = Inl (HTTPException 413 (File_too_large (max_upload_size s)))"
    by (simp add: predict_try_size)
  then show e: "predict w s p \<lparr> filename = fn, contents = bytes \<rparr>
      = Inl (HTTPException 413 (File_too_large (max_upload_size s)))"
    by (rule predict_HTTPException)
  show "status_code (post_predict w s p \<lparr> filename = fn, contents = bytes \<rparr>) = 413"
    by (simp add: post_predict_def e)
qed

lemma lower_suffix_notes: "lower (suffix ''notes.TXT'') = ''.txt''" by code_simp
lemma lower_suffix_photo: "lower (suffix ''photo.JPG'') = ''.jpg''" by code_simp


theorem predict_validation_order_witness:
  "lower (suffix ''notes.TXT'') \<notin> set (allowed_extensions default_settings)
   \<and> max_upload_size default_settings < int (length (replicate 11000000 (0 :: 8 word)))
   \<and> predict example_world default_settings example_predictor
         \<lparr> filename = ''notes.TXT'', contents = replicate 11000000 0 \<rparr>
       = Inl (HTTPException 400 (Invalid_file_type (allowed_extensions default_settings)))
   \<and> lower (suffix ''photo.JPG'') \<in> set (allowed_extensions default_settings)
   \<and> predict example_world default_settings example_predictor
         \<lparr> filename = ''photo.JPG'', contents = replicate 11000000 0 \<rparr>
       = Inl (HTTPException 413 (File_too_large (max_upload_size default_settings)))"
proof -
  have a: "lower (suffix ''notes.TXT'') \<notin> set (allowed_extensions default_settings)"
    unfolding lower_suffix_notes by (simp add: default_settings_def)
  have b: "lower (suffix ''photo.JPG'') \<in> set (allowed_extensions default_settings)"
    unfolding lower_suffix_photo by (simp add: default_settings_def)
  have c: "max_upload_size default_settings < int (length (replicate 11000000 (0 :: 8 word)))"
    by (simp add: default_settings_def)
  show ?thesis
    using predict_validation_order [of "''notes.TXT''" default_settings "replicate 11000000 0"]
      predict_validation_order [of "''photo.JPG''" default_settings "replicate 11000000 0"]
      a b c
    by blast
qed

section \<open>The endpoint: error responses\<close>


lemma preprocess_Inl: "preprocess w p img = Inl e \<Longrightarrow> \<exists>m. e = LibraryError m"
  by (auto simp: preprocess_def Let_def split: sum.splits if_splits)

lemma predictor_predict_Inl:
  "predictor_predict w s p img = Inl e \<Longrightarrow>
     e = RuntimeError ''Model not loaded'' \<and> \<not> is_loaded p
     \<or> is_loaded p \<and> ((\<exists>m. e = LibraryError m) \<or> (\<exists>m. e = ValidationError m))"
  by (auto simp: predictor_predict_def is_loaded_def split: sum.splits if_splits option.splits
        dest: preprocess_Inl rank_Inl)

lemma predictor_predict_not_HTTP: "predictor_predict w s p img \<noteq> Inl (HTTPException c d)"
  using predictor_predict_Inl [of w s p img "HTTPException c d"] by auto

lemma predict_try_HTTP:
  "predict_try w s p file = Inl (HTTPException c d) \<Longrightarrow> c = 400 \<or> c = 413"
  by (auto simp: predict_try_def Let_def predictor_predict_not_HTTP split: if_splits sum.splits)

lemma predict_other:
  "predict_try w s p file = Inl e \<Longrightarrow> \<forall>c d. e \<noteq> HTTPException c d \<Longrightarrow>
     predict w s p file = Inl (HTTPException 500 (Message (str_exn e)))"
  by (cases e) (auto simp: predict_def)

lemma predict_cases:
  "(\<exists>r. predict_try w s p file = Inr r \<and> predict w s p file = Inr r)
   \<or> (\<exists>c d. predict_try w s p file = Inl (HTTPException c d) \<and> (c = 400 \<or> c = 413)
          \<and> predict w s p file = Inl (HTTPException c d))
   \<or> (\<exists>e. predict_try w s p file = Inl e \<and> (\<forall>c d. e \<noteq> HTTPException c d)
          \<and> predict w s p file = Inl (HTTPException 500 (Message (str_exn e))))"
proof (cases "predict_try w s p file")
  case (Inr r)
  then show ?thesis by (simp add: predict_def)
next
  case (Inl e)
  show ?thesis
  proof (cases "\<exists>c d. e = HTTPException c d")
    case True
    then obtain c d where e: "e = HTTPException c d" by blast
    then show ?thesis using Inl predict_try_HTTP [of w s p "file" c d] predict_HTTPException [of w s p "file" c d]
      by auto
  next
    case False
    then show ?thesis using Inl predict_other [of w s p "file" e] by auto
  qed
qed

text \<open>
  C3 (amended). A request to \<^verbatim>\<open>/predict\<close> answered with status 500 is one whose
  processing raised an exception other than \<^verbatim>\<open>HTTPException\<close>, and the detail of the
  response is \<^verbatim>\<open>str(e)\<close> of that exception: its message, with no traceback and no
  chain of causes, but not a generic text. The body of \<open>internal_error_handler\<close>, with
  the detail "An unexpected error occurred", is never the answer to \<^verbatim>\<open>/predict\<close>:
  every exception of the handler has become an \<^verbatim>\<open>HTTPException\<close> before it leaves.
  The 400 and 413 responses carry the specific reason: the allowed extensions, the size
  limit, or the decoder's message.
\<close>

theorem predict_error_detail:
  "(status_code (post_predict w s p file) = 500 \<longrightarrow>
      (\<exists>e. predict_try w s p file = Inl e \<and> (\<forall>c d. e \<noteq> HTTPException c d)
           \<and> post_predict w s p file
               = \<lparr> status_code = 500, content = Detail_body (Message (str_exn e)) \<rparr>))
   \<and> (\<forall>e. post_predict w s p file \<noteq> internal_error_handler e)
   \<and> (lower (suffix (filename file)) \<notin> set (allowed_extensions s) \<longrightarrow>
        post_predict w s p file
          = \<lparr> status_code = 400, content = Detail_body (Invalid_file_type (allowed_extensions s)) \<rparr>)
   \<and> (lower (suffix (filename file)) \<in> set (allowed_extensions s)
        \<and> max_upload_size s < int (length (contents file)) \<longrightarrow>
        post_predict w s p file
          = \<lparr> status_code = 413, content = Detail_body (File_too_large (max_upload_size s)) \<rparr>)
   \<and> (lower (suffix (filename file)) \<in> set (allowed_extensions s)
        \<and> int (length (contents file)) \<le> max_upload_size s
        \<and> load_image w (contents file) = Inl msg \<longrightarrow>
        post_predict w s p file
          = \<lparr> status_code = 400, content = Detail_body (Message (''Invalid image file: '' @ msg)) \<rparr>)"
proof (intro conjI impI allI)
  assume st: "status_code (post_predict w s p file) = 500"
  consider (ok) r where "predict w s p file = Inr r"
    | (http) c d where "predict w s p file = Inl (HTTPException c d)" "c = 400 \<or> c = 413"
    | (other) e where "predict_try w s p file = Inl e" "\<forall>c d. e \<noteq> HTTPException c d"
        "predict w s p file = Inl (HTTPException 500 (Message (str_exn e)))"
    using predict_cases [of w s p "file"] by blast
  then show "\<exists>e. predict_try w s p file = Inl e \<and> (\<forall>c d. e \<noteq> HTTPException c d)
           \<and> post_predict w s p file
               = \<lparr> status_code = 500, content = Detail_body (Message (str_exn e)) \<rparr>"
  proof cases
    case ok
    then show ?thesis using st by (simp add: post_predict_def)
  next
    case http
    then show ?thesis using st by (auto simp add: post_predict_def)
  next
    case other
    then show ?thesis by (auto simp: post_predict_HTTP)
  qed
next
  fix e
  from predict_cases [of w s p "file"]
  show "post_predict w s p file \<noteq> internal_error_handler e"
    by (auto simp: post_predict_def internal_error_handler_def)
next
  assume "lower (suffix (filename file)) \<notin> set (allowed_extensions s)"
  then show "post_predict w s p file
          = \<lparr> status_code = 400, content = Detail_body (Invalid_file_type (allowed_extensions s)) \<rparr>"
    by (simp add: post_predict_HTTP predict_HTTPException predict_try_extension)
next
  assume "lower (suffix (filename file)) \<in> set (allowed_extensions s)
        \<and> max_upload_size s < int (length (contents file))"
  then show "post_predict w s p file
          = \<lparr> status_code = 413, content = Detail_body (File_too_large (max_upload_size s)) \<rparr>"
    by (simp add: post_predict_HTTP predict_HTTPException predict_try_size)
next
  assume "lower (suffix (filename file)) \<in> set (allowed_extensions s)
        \<and> int (length (contents file)) \<le> max_upload_size s
        \<and> load_image w (contents file) = Inl msg"
  then have "predict_try w s p file
      = Inl (HTTPException 400 (Message (''Invalid image file: '' @ msg)))"
    by (simp add: predict_try_def Let_def)
  then show "post_predict w s p file
          = \<lparr> status_code = 400, content = Detail_body (Message (''Invalid image file: '' @ msg)) \<rparr>"
    by (simp add: post_predict_HTTP predict_HTTPException)
qed

lemma lower_suffix_bus: "lower (suffix ''bus.jpg'') = ''.jpg''" by code_simp

theorem predict_error_detail_witness:
  "status_code (post_predict example_world default_settings
       (example_predictor \<lparr> session := Some failing_session \<rparr>)
       \<lparr> filename = ''bus.jpg'', contents = [1] \<rparr>) = 500
   \<and> (\<exists>e. predict_try example_world default_settings
              (example_predictor \<lparr> session := Some failing_session \<rparr>)
              \<lparr> filename = ''bus.jpg'', contents = [1] \<rparr> = Inl e
          \<and> post_predict example_world default_settings
              (example_predictor \<lparr> session := Some failing_session \<rparr>)
              \<lparr> filename = ''bus.jpg'', contents = [1] \<rparr>
            = \<lparr> status_code = 500, content = Detail_body (Message (str_exn e)) \<rparr>)
   \<and> post_predict example_world default_settings example_predictor
         \<lparr> filename = ''notes.TXT'', contents = [1] \<rparr>
       = \<lparr> status_code = 400,
           content = Detail_body (Invalid_file_type (allowed_extensions default_settings)) \<rparr>
   \<and> post_predict example_world default_settings example_predictor
         \<lparr> filename = ''photo.JPG'', contents = replicate 11000000 0 \<rparr>
       = \<lparr> status_code = 413,
           content = Detail_body (File_too_large (max_upload_size default_settings)) \<rparr>
   \<and> post_predict example_world default_settings example_predictor
         \<lparr> filename = ''photo.JPG'', contents = [] \<rparr>
       = \<lparr> status_code = 400,
           content = Detail_body (Message (''Invalid image file: '' @ ''cannot identify image file'')) \<rparr>"
proof -
  let ?p = "example_predictor \<lparr> session := Some failing_session \<rparr>"
  have st: "status_code (post_predict example_world default_settings ?p
       \<lparr> filename = ''bus.jpg'', contents = [1] \<rparr>) = 500"
    by (simp add: post_predict_def predict_def predict_try_def Let_def lower_suffix_bus default_settings_def
      load_image_def example_world_def example_image_def predictor_predict_def is_loaded_def
      example_predictor_def failing_session_def example_session_def preprocess_def)
  have a: "lower (suffix (filename \<lparr> filename = ''notes.TXT'', contents = [1 :: 8 word] \<rparr>))
             \<notin> set (allowed_extensions default_settings)"
    by (simp add: lower_suffix_notes default_settings_def)
  have b: "lower (suffix (filename \<lparr> filename = ''photo.JPG'', contents = replicate 11000000 (0 :: 8 word) \<rparr>))
             \<in> set (allowed_extensions default_settings)
        \<and> max_upload_size default_settings
             < int (length (contents \<lparr> filename = ''photo.JPG'', contents = replicate 11000000 (0 :: 8 word) \<rparr>))"
    by (simp add: lower_suffix_photo default_settings_def)
  have c: "lower (suffix (filename \<lparr> filename = ''photo.JPG'', contents = ([] :: 8 word list) \<rparr>))
             \<in> set (allowed_extensions default_settings)
        \<and> int (length (contents \<lparr> filename = ''photo.JPG'', contents = ([] :: 8 word list) \<rparr>))
             \<le> max_upload_size default_settings
        \<and> load_image example_world (contents \<lparr> filename = ''photo.JPG'', contents = ([] :: 8 word list) \<rparr>)
             = Inl ''cannot identify image file''"
    by (simp add: lower_suffix_photo default_settings_def load_image_def example_world_def)
  have r1: "\<exists>e. predict_try example_world default_settings ?p
              \<lparr> filename = ''bus.jpg'', contents = [1] \<rparr> = Inl e
          \<and> post_predict example_world default_settings ?p
              \<lparr> filename = ''bus.jpg'', contents = [1] \<rparr>
            = \<lparr> status_code = 500, content = Detail_body (Message (str_exn e)) \<rparr>"
    using predict_error_detail [of example_world default_settings ?p
              "\<lparr> filename = ''bus.jpg'', contents = [1] \<rparr>", THEN conjunct1, THEN mp, OF st]
    by blast
  note r2 = predict_error_detail [of example_world default_settings example_predictor
              "\<lparr> filename = ''notes.TXT'', contents = [1] \<rparr>",
              THEN conjunct2, THEN conjunct2, THEN conjunct1, THEN mp, OF a]
  note r3 = predict_error_detail [of example_world default_settings example_predictor
              "\<lparr> filename = ''photo.JPG'', contents = replicate 11000000 0 \<rparr>",
              THEN conjunct2, THEN conjunct2, THEN conjunct2, THEN conjunct1, THEN mp, OF b]
  note r4 = predict_error_detail [of example_world default_settings example_predictor
              "\<lparr> filename = ''photo.JPG'', contents = [] \<rparr>" "''cannot identify image file''",
              THEN conjunct2, THEN conjunct2, THEN conjunct2, THEN conjunct2, THEN mp, OF c]
  show ?thesis
    by (intro conjI) (rule st r1 r2 r3 r4)+
qed

text \<open>
  Two requests answered with status 500 whose detail is the message of the exception:
  the backend's, and that of the guard of an unloaded predictor.
\<close>

theorem predict_error_detail_counterexample:
  "post_predict example_world default_settings
       (example_predictor \<lparr> session := Some failing_session \<rparr>)
       \<lparr> filename = ''bus.jpg'', contents = [1] \<rparr>
     = \<lparr> status_code = 500, content = Detail_body (Message ''Got invalid dimensions for input'') \<rparr>
   \<and> post_predict example_world default_settings initial_predictor
       \<lparr> filename = ''bus.jpg'', contents = [1] \<rparr>
     = \<lparr> status_code = 500, content = Detail_body (Message ''Model not loaded'') \<rparr>"
  by (simp add: post_predict_def predict_def predict_try_def Let_def lower_suffix_bus default_settings_def
      load_image_def example_world_def example_image_def predictor_predict_def is_loaded_def
      example_predictor_def failing_session_def example_session_def preprocess_def
      initial_predictor_def)

section \<open>File names without an extension\<close>

text \<open>
  C10. The empty string is not among the default allowed extensions, and for every
  configuration whose allowed extensions do not hold it, an upload whose file name has
  an empty suffix is answered 400 (invalid file type) whatever its bytes, the libraries
  and the predictor are: the size check and the decoder are not reached.
\<close>

theorem predict_no_extension:
  "[] \<notin> set (allowed_extensions default_settings)
   \<and> (suffix fn = [] \<and> [] \<notin> set (allowed_extensions s) \<longrightarrow>
        (\<forall>bytes w p.
           predict w s p \<lparr> filename = fn, contents = bytes \<rparr>
             = Inl (HTTPException 400 (Invalid_file_type (allowed_extensions s)))
           \<and> post_predict w s p \<lparr> filename = fn, contents = bytes \<rparr>
             = \<lparr> status_code = 400, content = Detail_body (Invalid_file_type (allowed_extensions s)) \<rparr>))"
proof (intro conjI impI allI)
  show "[] \<notin> set (allowed_extensions default_settings)"
    by (simp add: default_settings_def)
next
  fix bytes w p
  assume a: "suffix fn = [] \<and> [] \<notin> set (allowed_extensions s)"
  then have "lower (suffix (filename \<lparr> filename = fn, contents = bytes \<rparr>)) \<notin> set (allowed_extensions s)"
    by (simp add: lower_def)
  then have "predict_try w s p \<lparr> filename = fn, contents = bytes \<rparr>
      = Inl (HTTPException 400 (Invalid_file_type (allowed_extensions s)))"
    by (rule predict_try_extension)
  then show e: "predict w s p \<lparr> filename = fn, contents = bytes \<rparr>
      = Inl (HTTPException 400 (Invalid_file_type (allowed_extensions s)))"
    by (rule predict_HTTPException)
  then show "post_predict w s p \<lparr> filename = fn, contents = bytes \<rparr>
      = \<lparr> status_code = 400, content = Detail_body (Invalid_file_type (allowed_extensions s)) \<rparr>"
    by (rule post_predict_HTTP)
qed

lemma suffix_README: "suffix ''README'' = []" by code_simp

theorem predict_no_extension_witness:
  "suffix ''README'' = []
   \<and> [] \<notin> set (allowed_extensions default_settings)
   \<and> predict example_world default_settings example_predictor
         \<lparr> filename = ''README'', contents = replicate 11000000 0 \<rparr>
       = Inl (HTTPException 400 (Invalid_file_type (allowed_extensions default_settings)))
   \<and> post_predict example_world default_settings example_predictor
         \<lparr> filename = ''README'', contents = [1] \<rparr>
       = \<lparr> status_code = 400,
           content = Detail_body (Invalid_file_type (allowed_extensions default_settings)) \<rparr>"
  using predict_no_extension [of "''README''" default_settings] suffix_README by blast

section \<open>Scores outside the unit interval\<close>

lemma round_half_even_gt: "of_int k + 1 / 2 < y \<Longrightarrow> k < round_half_even y"
proof -
  assume a: "of_int k + 1 / 2 < y"
  then have "of_int k \<le> y" by simp
  then have fl: "k \<le> \<lfloor>y\<rfloor>" by (simp add: le_floor_iff)
  show ?thesis
  proof (cases "k = \<lfloor>y\<rfloor>")
    case True
    then have "1 / 2 < y - of_int \<lfloor>y\<rfloor>" using a by simp
    then show ?thesis using True by (simp add: round_half_even_def Let_def)
  next
    case False
    then have "k < \<lfloor>y\<rfloor>" using fl by simp
    moreover have "\<lfloor>y\<rfloor> \<le> round_half_even y" by (auto simp: round_half_even_def Let_def)
    ultimately show ?thesis by linarith
  qed
qed

lemma round_half_even_lt: "y < of_int k - 1 / 2 \<Longrightarrow> round_half_even y < k"
proof -
  assume a: "y < of_int k - 1 / 2"
  then have "y < of_int k" by simp
  then have fl: "\<lfloor>y\<rfloor> < k" by (simp add: floor_less_iff)
  show ?thesis
  proof (cases "\<lfloor>y\<rfloor> = k - 1")
    case True
    then have "of_int \<lfloor>y\<rfloor> = (of_int k :: rat) - 1" by simp
    then have "y - of_int \<lfloor>y\<rfloor> < 1 / 2" using a by simp
    then show ?thesis using True by (simp add: round_half_even_def Let_def)
  next
    case False
    then have "\<lfloor>y\<rfloor> + 1 < k" using fl by simp
    moreover have "round_half_even y \<le> \<lfloor>y\<rfloor> + 1" by (auto simp: round_half_even_def Let_def)
    ultimately show ?thesis by linarith
  qed
qed

lemma py_round_above: "1 + 1 / 20000 < x \<Longrightarrow> 1 < py_round x 4"
proof -
  assume "1 + 1 / 20000 < x"
  then have "of_int 10000 + 1 / 2 < x * 10 ^ 4" by simp
  then have "10000 < round_half_even (x * 10 ^ 4)" by (rule round_half_even_gt)
  then have "(10000 :: rat) < of_int (round_half_even (x * 10 ^ 4))" by linarith
  then show ?thesis by (simp add: py_round_def)
qed

lemma py_round_below: "x < - (1 / 20000) \<Longrightarrow> py_round x 4 < 0"
proof -
  assume "x < - (1 / 20000)"
  then have "x * 10 ^ 4 < of_int 0 - 1 / 2" by simp
  then have "round_half_even (x * 10 ^ 4) < 0" by (rule round_half_even_lt)
  then have "of_int (round_half_even (x * 10 ^ 4)) < (0 :: rat)" by linarith
  then show ?thesis by (simp add: py_round_def divide_neg_pos)
qed

text \<open>
  C9 (amended). The constructor of \<^verbatim>\<open>PredictionResult\<close> accepts a confidence only in
  \<open>[0, 1]\<close> and stores it unchanged; outside it raises, it does not clamp. What it is
  given is the score rounded to four decimals. So when a class among the top indices
  passes the threshold and its rounded score lies outside \<open>[0, 1]\<close>, which is the case
  whenever the raw score is above \<open>1.00005\<close> or below \<open>-0.00005\<close>, the ranking step
  raises the validation error of such a class, and a request that got that far is
  answered with status 500 and, as detail, \<^verbatim>\<open>str(e)\<close> of that error, which is
  pydantic's report.
\<close>

theorem out_of_range_confidence:
  "(new_PredictionResult w label c = Inr r \<longrightarrow> confidence r = c \<and> 0 \<le> c \<and> c \<le> 1)
   \<and> (c < 0 \<or> 1 < c \<longrightarrow>
        new_PredictionResult w label c = Inl (ValidationError (pydantic_report w c)))
   \<and> (1 + 1 / 20000 < x \<longrightarrow> 1 < py_round x 4)
   \<and> (x < - (1 / 20000) \<longrightarrow> py_round x 4 < 0)
   \<and> (i \<in> set (top_indices w s raw) \<and> model_confidence_threshold s \<le> raw ! i
        \<and> (py_round (raw ! i) 4 < 0 \<or> 1 < py_round (raw ! i) 4) \<longrightarrow>
        (\<exists>j. j \<in> set (top_indices w s raw) \<and> model_confidence_threshold s \<le> raw ! j
            \<and> (py_round (raw ! j) 4 < 0 \<or> 1 < py_round (raw ! j) 4)
            \<and> rank w s names raw
                = Inl (ValidationError (pydantic_report w (py_round (raw ! j) 4)))
            \<and> (lower (suffix (filename req)) \<in> set (allowed_extensions s)
                \<and> int (length (contents req)) \<le> max_upload_size s
                \<and> load_image w (contents req) = Inr img
                \<and> model_loaded p \<and> session p = Some sess
                \<and> class_names p = names
                \<and> preprocess w p img = Inr input_data
                \<and> run sess (input_name p) input_data = Inr raw \<longrightarrow>
                predict w s p req
                  = Inl (HTTPException 500 (Message (pydantic_report w (py_round (raw ! j) 4))))
                \<and> post_predict w s p req
                  = \<lparr> status_code = 500,
                      content = Detail_body (Message (pydantic_report w (py_round (raw ! j) 4))) \<rparr>)))"
proof (intro conjI impI)
  assume "new_PredictionResult w label c = Inr r"
  then show "confidence r = c" "0 \<le> c" "c \<le> 1"
    by (auto simp: new_PredictionResult_def split: if_splits)
next
  assume "c < 0 \<or> 1 < c"
  then show "new_PredictionResult w label c = Inl (ValidationError (pydantic_report w c))"
    by (auto simp: new_PredictionResult_def)
next
  assume "1 + 1 / 20000 < x" then show "1 < py_round x 4" by (rule py_round_above)
next
  assume "x < - (1 / 20000)" then show "py_round x 4 < 0" by (rule py_round_below)
next
  assume a: "i \<in> set (top_indices w s raw) \<and> model_confidence_threshold s \<le> raw ! i
        \<and> (py_round (raw ! i) 4 < 0 \<or> 1 < py_round (raw ! i) 4)"
  then have "\<not> (0 \<le> py_round (raw ! i) 4 \<and> py_round (raw ! i) 4 \<le> 1)" by auto
  with a obtain e where "rank w s names raw = Inl e"
    using rank_rejects by blast
  then obtain j where j: "j \<in> set (top_indices w s raw)" "model_confidence_threshold s \<le> raw ! j"
      "\<not> (0 \<le> py_round (raw ! j) 4 \<and> py_round (raw ! j) 4 \<le> 1)"
    and rk: "rank w s names raw = Inl (ValidationError (pydantic_report w (py_round (raw ! j) 4)))"
    using rank_Inl by blast
  have out: "py_round (raw ! j) 4 < 0 \<or> 1 < py_round (raw ! j) 4" using j(3) by auto
  have pipe: "predict w s p req
                  = Inl (HTTPException 500 (Message (pydantic_report w (py_round (raw ! j) 4))))
                \<and> post_predict w s p req
                  = \<lparr> status_code = 500,
                      content = Detail_body (Message (pydantic_report w (py_round (raw ! j) 4))) \<rparr>"
    if b: "lower (suffix (filename req)) \<in> set (allowed_extensions s)
                \<and> int (length (contents req)) \<le> max_upload_size s
                \<and> load_image w (contents req) = Inr img
                \<and> model_loaded p \<and> session p = Some sess
                \<and> class_names p = names
                \<and> preprocess w p img = Inr input_data
                \<and> run sess (input_name p) input_data = Inr raw"
  proof -
    have "predictor_predict w s p img
        = Inl (ValidationError (pydantic_report w (py_round (raw ! j) 4)))"
      using b rk by (simp add: predictor_predict_def is_loaded_def)
    then have "predict_try w s p req
        = Inl (ValidationError (pydantic_report w (py_round (raw ! j) 4)))"
      using b by (simp add: predict_try_def Let_def)
    then have e: "predict w s p req
        = Inl (HTTPException 500 (Message (pydantic_report w (py_round (raw ! j) 4))))"
      by (simp add: predict_def)
    then show ?thesis using post_predict_HTTP by blast
  qed
  show "\<exists>j. j \<in> set (top_indices w s raw) \<and> model_confidence_threshold s \<le> raw ! j
            \<and> (py_round (raw ! j) 4 < 0 \<or> 1 < py_round (raw ! j) 4)
            \<and> rank w s names raw
                = Inl (ValidationError (pydantic_report w (py_round (raw ! j) 4)))
            \<and> (lower (suffix (filename req)) \<in> set (allowed_extensions s)
                \<and> int (length (contents req)) \<le> max_upload_size s
                \<and> load_image w (contents req) = Inr img
                \<and> model_loaded p \<and> session p = Some sess
                \<and> class_names p = names
                \<and> preprocess w p img = Inr input_data
                \<and> run sess (input_name p) input_data = Inr raw \<longrightarrow>
                predict w s p req
                  = Inl (HTTPException 500 (Message (pydantic_report w (py_round (raw ! j) 4))))
                \<and> post_predict w s p req
                  = \<lparr> status_code = 500,
                      content = Detail_body (Message (pydantic_report w (py_round (raw ! j) 4))) \<rparr>)"
    using j(1,2) out rk pipe by blast
qed

lemma top_indices_logits: "top_indices example_world default_settings [3 / 2, 1 / 10] = [0, 1]"
  by code_simp

lemma py_round_logit: "py_round (3 / 2) 4 = 3 / 2"
  by code_simp

lemma new_PredictionResult_half:
  "new_PredictionResult example_world ''0'' (1 / 2) = Inr \<lparr>class_name = ''0'', confidence = 1 / 2\<rparr>"
  by code_simp

theorem out_of_range_confidence_witness:
  "new_PredictionResult example_world ''0'' (1 / 2) = Inr \<lparr>class_name = ''0'', confidence = 1 / 2\<rparr>
   \<and> new_PredictionResult example_world ''0'' (3 / 2)
       = Inl (ValidationError (pydantic_report example_world (3 / 2)))
   \<and> 1 < py_round (3 / 2) 4
   \<and> py_round (- (1 / 2)) 4 < 0
   \<and> rank example_world default_settings [] [3 / 2, 1 / 10]
        = Inl (ValidationError (pydantic_report example_world (3 / 2)))
   \<and> post_predict example_world default_settings
        (example_predictor \<lparr> session := Some logit_session \<rparr>)
        \<lparr> filename = ''bus.jpg'', contents = [1] \<rparr>
       = \<lparr> status_code = 500,
           content = Detail_body (Message (pydantic_report example_world (3 / 2))) \<rparr>"
proof -
  let ?p = "example_predictor \<lparr> session := Some logit_session \<rparr>"
  let ?req = "\<lparr> filename = ''bus.jpg'', contents = [1 :: 8 word] \<rparr>"
  let ?raw = "[3 / 2, 1 / 10 :: rat]"
  let ?t = "expand_dims_0 (transpose_2_0_1 (divide_255 (astype_float32 (np_array
              (example_image \<lparr> width := 2, height := 2,
                  sample := (\<lambda>y x k. sample example_image 0 0 k) \<rparr>)))))"
  note T = out_of_range_confidence
      [where w = example_world and s = default_settings and raw = ?raw and names = "[]"
         and label = "''0''" and req = ?req and img = example_image and p = ?p
         and sess = logit_session and input_data = ?t]
  have h1: "(0 :: nat) \<in> set (top_indices example_world default_settings ?raw)
      \<and> model_confidence_threshold default_settings \<le> ?raw ! 0
      \<and> (py_round (?raw ! 0) 4 < 0 \<or> 1 < py_round (?raw ! 0) 4)"
  proof (intro conjI)
    show "(0 :: nat) \<in> set (top_indices example_world default_settings ?raw)"
      by (simp add: top_indices_logits)
    show "model_confidence_threshold default_settings \<le> ?raw ! 0"
      by (simp add: default_settings_def)
    show "py_round (?raw ! 0) 4 < 0 \<or> 1 < py_round (?raw ! 0) 4"
      by (simp add: py_round_logit)
  qed
  have h2: "lower (suffix (filename ?req)) \<in> set (allowed_extensions default_settings)
            \<and> int (length (contents ?req)) \<le> max_upload_size default_settings
            \<and> load_image example_world (contents ?req) = Inr example_image
            \<and> model_loaded ?p \<and> session ?p = Some logit_session
            \<and> class_names ?p = []
            \<and> preprocess example_world ?p example_image = Inr ?t
            \<and> run logit_session (input_name ?p) ?t = Inr ?raw"
    by (simp add: lower_suffix_bus default_settings_def load_image_def example_world_def
        example_image_def example_predictor_def logit_session_def example_session_def
        preprocess_def)
  obtain j where j: "j \<in> set (top_indices example_world default_settings ?raw)"
      "model_confidence_threshold default_settings \<le> ?raw ! j"
    and rk: "rank example_world default_settings [] ?raw
        = Inl (ValidationError (pydantic_report example_world (py_round (?raw ! j) 4)))"
    and pp: "post_predict example_world default_settings ?p ?req
        = \<lparr> status_code = 500,
            content = Detail_body (Message (pydantic_report example_world (py_round (?raw ! j) 4))) \<rparr>"
    using T [where i = 0, THEN conjunct2, THEN conjunct2, THEN conjunct2, THEN conjunct2,
        THEN mp, OF h1] h2
    by blast
  have "j = 0 \<or> j = 1" using j(1) by (simp add: top_indices_logits)
  moreover have "j \<noteq> 1" using j(2) by (auto simp: default_settings_def)
  ultimately have j0: "j = 0" by simp
  have r0: "py_round (?raw ! j) 4 = 3 / 2" unfolding j0 by (simp add: py_round_logit)
  have c1: "new_PredictionResult example_world ''0'' (3 / 2)
       = Inl (ValidationError (pydantic_report example_world (3 / 2)))"
    using T [where c = "3 / 2", THEN conjunct2, THEN conjunct1] by simp
  have c2: "1 < py_round (3 / 2) 4"
    using T [where x = "3 / 2", THEN conjunct2, THEN conjunct2, THEN conjunct1] by simp
  have c3: "py_round (- (1 / 2)) 4 < 0"
    using T [where x = "- (1 / 2)", THEN conjunct2, THEN conjunct2, THEN conjunct2, THEN conjunct1]
    by simp
  show ?thesis
    using new_PredictionResult_half c1 c2 c3 rk pp unfolding r0 by (intro conjI)
qed

text \<open>
  A raw score above 1 that is returned: \<open>1.00004\<close> passes the threshold, rounds to
  \<open>1\<close> and is accepted.
\<close>

theorem out_of_range_confidence_counterexample:
  "(1 :: rat) < 100004 / 100000
   \<and> model_confidence_threshold default_settings \<le> 100004 / 100000
   \<and> rank example_world default_settings [] [100004 / 100000]
       = Inr [\<lparr>class_name = ''0'', confidence = 1\<rparr>]"
  by code_simp

section \<open>The input tensor\<close>

lemma sample_unit: "0 \<le> (of_nat (unat (v :: 8 word)) :: rat) / 255 \<and> (of_nat (unat v) :: rat) / 255 \<le> 1"
proof -
  have "unat v < 256" using unsigned_less [of v, where ?'a = nat] by simp
  then have "unat v \<le> 255" by simp
  then have "(of_nat (unat v) :: rat) \<le> of_nat 255" by (simp only: of_nat_le_iff)
  then have "(of_nat (unat v) :: rat) \<le> 255" by (simp del: of_nat_unat)
  moreover have "(0 :: rat) \<le> of_nat (unat v)" by (rule of_nat_0_le_iff)
  ultimately show ?thesis by (simp del: of_nat_unat)
qed

lemma preprocess_resized:
  assumes "(if mode img \<noteq> RGB then convert w img RGB else Inr img) = Inr rgb"
    and "resize w rgb (input_width p, input_height p) = Inr resized"
  shows "preprocess w p img
           = Inr (expand_dims_0 (transpose_2_0_1 (divide_255 (astype_float32 (np_array resized)))))"
  using assms by (simp add: preprocess_def Let_def)

text \<open>
  C5. Let the image be RGB already, or converted to RGB, and let PIL's resize to the
  predictor's input size \<open>(W, H)\<close> return an RGB image of that size. Then preprocessing
  returns an array of dtype float32 and shape \<open>(1, 3, H, W)\<close> whose element at
  \<open>(0, c, y, x)\<close> is sample \<open>c\<close> of the resized pixel in row \<open>y\<close> and column \<open>x\<close>
  divided by 255, a value in \<open>[0, 1]\<close>: the samples are divided by 255, the axes
  (H, W, C) become (C, H, W), and a batch axis of size 1 comes first.
\<close>

theorem preprocess_tensor:
  assumes "(if mode img \<noteq> RGB then convert w img RGB else Inr img) = Inr rgb"
    and "input_width p = int W" and "input_height p = int H"
    and "resize w rgb (int W, int H) = Inr resized"
    and "mode resized = RGB" and "width resized = W" and "height resized = H"
  shows "\<exists>t. preprocess w p img = Inr t
           \<and> dtype4 t = float32
           \<and> shape4 t = (1, 3, H, W)
           \<and> (\<forall>c y x. c < 3 \<and> y < H \<and> x < W \<longrightarrow>
                 elem4 t 0 c y x = of_nat (unat (sample resized y x c)) / 255
                 \<and> 0 \<le> elem4 t 0 c y x \<and> elem4 t 0 c y x \<le> 1)"
proof -
  let ?t = "expand_dims_0 (transpose_2_0_1 (divide_255 (astype_float32 (np_array resized))))"
  have p: "preprocess w p img = Inr ?t"
    using assms(1) assms(4) by (simp add: preprocess_resized assms(2) assms(3))
  have d: "dtype4 ?t = float32"
    by (simp add: expand_dims_0_def transpose_2_0_1_def divide_255_def astype_float32_def np_array_def)
  have s: "shape4 ?t = (1, 3, H, W)"
    using assms(5-7)
    by (simp add: expand_dims_0_def transpose_2_0_1_def divide_255_def astype_float32_def np_array_def)
  have e: "elem4 ?t 0 c y x = of_nat (unat (sample resized y x c)) / 255" for c y x
    by (simp add: expand_dims_0_def transpose_2_0_1_def divide_255_def astype_float32_def
        np_array_def del: of_nat_unat)
  have u: "elem4 ?t 0 c y x = of_nat (unat (sample resized y x c)) / 255
      \<and> 0 \<le> elem4 ?t 0 c y x \<and> elem4 ?t 0 c y x \<le> 1" for c y x
    unfolding e using sample_unit [of "sample resized y x c"] by blast
  show ?thesis
  proof (intro exI [of _ ?t] conjI allI impI)
    show "preprocess w p img = Inr ?t" by (rule p)
    show "dtype4 ?t = float32" by (rule d)
    show "shape4 ?t = (1, 3, H, W)" by (rule s)
  qed (use u in blast)+
qed

theorem preprocess_tensor_witness:
  "\<exists>t. preprocess example_world example_predictor example_image = Inr t
       \<and> dtype4 t = float32
       \<and> shape4 t = (1, 3, 2, 2)
       \<and> elem4 t 0 0 1 1 = 1
       \<and> elem4 t 0 2 0 1 = 1 / 5"
proof -
  let ?r = "example_image \<lparr> width := 2, height := 2,
                sample := (\<lambda>y x k. sample example_image 0 0 k) \<rparr>"
  have a: "(if mode example_image \<noteq> RGB then convert example_world example_image RGB
            else Inr example_image) = Inr example_image"
    by (simp add: example_image_def)
  have b: "input_width example_predictor = int 2" "input_height example_predictor = int 2"
    by (simp_all add: example_predictor_def)
  have c: "resize example_world example_image (int 2, int 2) = Inr ?r"
    by (simp add: example_world_def)
  have d: "mode ?r = RGB" "width ?r = 2" "height ?r = 2"
    by (simp_all add: example_image_def)
  obtain t where t: "preprocess example_world example_predictor example_image = Inr t"
      "dtype4 t = float32" "shape4 t = (1, 3, 2, 2)"
      "\<forall>c y x. c < 3 \<and> y < 2 \<and> x < 2 \<longrightarrow>
         elem4 t 0 c y x = of_nat (unat (sample ?r y x c)) / 255
         \<and> 0 \<le> elem4 t 0 c y x \<and> elem4 t 0 c y x \<le> 1"
    using preprocess_tensor [OF a b c d] by blast
  have "elem4 t 0 0 1 1 = of_nat (unat (sample ?r 1 1 0)) / 255"
    using t(4) by (simp del: of_nat_unat)
  then have e1: "elem4 t 0 0 1 1 = 1" by (simp add: example_image_def)
  have "elem4 t 0 2 0 1 = of_nat (unat (sample ?r 0 1 2)) / 255"
    using t(4) by (simp del: of_nat_unat)
  then have e2: "elem4 t 0 2 0 1 = 1 / 5" by (simp add: example_image_def)
  show ?thesis using t(1-3) e1 e2 by blast
qed

section \<open>Loading the model\<close>

lemma load_model_flag:
  "load_model w s p = (p', r) \<Longrightarrow> model_loaded p' = (model_loaded p \<or> r = None)"
  by (auto simp: load_model_def Let_def split: if_splits sum.splits list.splits prod.splits)

lemma load_model_success:
  assumes "load_model w s p = (p', None)"
  shows "\<exists>sess name shape rest names.
           path_exists w (model_path s)
           \<and> InferenceSession w (model_path s) = Inr sess
           \<and> get_inputs sess = (name, shape) # rest
           \<and> 4 \<le> length shape
           \<and> (if path_exists w (class_names_path s)
               then \<exists>lines. readlines w (class_names_path s) = Inr lines \<and> names = map strip lines
               else names = [])
           \<and> p' = p \<lparr> session := Some sess, input_name := name,
                       input_height := dim_or_224 (shape ! 2),
                       input_width := dim_or_224 (shape ! 3),
                       class_names := names, model_loaded := True \<rparr>"
  using assms
  by (auto simp: load_model_def Let_def split: if_splits sum.splits list.splits prod.splits)

lemma load_model_steps:
  assumes "path_exists w (model_path s)"
    and "InferenceSession w (model_path s) = Inr sess"
    and "get_inputs sess = (name, shape) # rest"
    and "4 \<le> length shape"
  shows "\<not> path_exists w (class_names_path s) \<Longrightarrow>
           load_model w s p
             = (p \<lparr> session := Some sess, input_name := name,
                     input_height := dim_or_224 (shape ! 2),
                     input_width := dim_or_224 (shape ! 3),
                     class_names := [], model_loaded := True \<rparr>, None)"
    and "path_exists w (class_names_path s) \<Longrightarrow> readlines w (class_names_path s) = Inr lines \<Longrightarrow>
           load_model w s p
             = (p \<lparr> session := Some sess, input_name := name,
                     input_height := dim_or_224 (shape ! 2),
                     input_width := dim_or_224 (shape ! 3),
                     class_names := map strip lines, model_loaded := True \<rparr>, None)"
  using assms by (simp_all add: load_model_def Let_def)

lemma after_call_loaded: "model_loaded p \<Longrightarrow> after_call s p c = p"
  by (cases c) (simp_all add: ModelPredictor_def)

lemma after_calls_loaded: "model_loaded p \<Longrightarrow> after_calls s p cs = p"
  by (induction cs) (simp_all add: after_call_loaded)

lemma after_call_becomes_loaded:
  assumes "\<not> model_loaded p" and "model_loaded (after_call s p c)"
  shows "\<exists>w. c = Construct w \<and> load_model w s p = (after_call s p c, None)"
proof (cases c)
  case (Construct w)
  obtain p' r where l: "load_model w s p = (p', r)" by (cases "load_model w s p")
  then have p': "after_call s p c = p'" using Construct assms(1) by (simp add: ModelPredictor_def)
  then have "r = None" using load_model_flag [OF l] assms by simp
  then show ?thesis using Construct l p' by simp
qed (use assms in simp_all)

text \<open>
  C6. The predictor starts with the loaded flag false. A call of \<open>load_model\<close> leaves
  the flag true exactly when it was true before or the call raised nothing, and a call
  that raised nothing has created the session, read the input name and shape, and
  loaded the labels (or found no label file). A call that turns the flag from false to
  true is a construction whose load raised nothing. Once the flag is true, no sequence
  of constructions, predictions, \<open>is_loaded\<close> and \<open>get_model_info\<close> calls changes the
  predictor: the flag stays true and the session, the labels and the input shape stay
  what they are.
\<close>

theorem loaded_flag_invariant:
  "\<not> model_loaded initial_predictor
   \<and> (load_model w s p = (p', r) \<longrightarrow>
        (model_loaded p' \<longleftrightarrow> model_loaded p \<or> r = None)
        \<and> (r = None \<longrightarrow>
             (\<exists>sess name shape rest names.
                 path_exists w (model_path s)
                 \<and> InferenceSession w (model_path s) = Inr sess
                 \<and> get_inputs sess = (name, shape) # rest
                 \<and> 4 \<le> length shape
                 \<and> (if path_exists w (class_names_path s)
                     then \<exists>lines. readlines w (class_names_path s) = Inr lines
                            \<and> names = map strip lines
                     else names = [])
                 \<and> p' = p \<lparr> session := Some sess, input_name := name,
                             input_height := dim_or_224 (shape ! 2),
                             input_width := dim_or_224 (shape ! 3),
                             class_names := names, model_loaded := True \<rparr>)))
   \<and> (\<not> model_loaded p \<and> model_loaded (after_call s p c) \<longrightarrow>
        (\<exists>w'. c = Construct w' \<and> load_model w' s p = (after_call s p c, None)))
   \<and> (model_loaded p \<longrightarrow> after_calls s p cs = p)"
proof (intro conjI impI)
  show "\<not> model_loaded initial_predictor" by (simp add: initial_predictor_def)
next
  assume "load_model w s p = (p', r)"
  then show "model_loaded p' \<longleftrightarrow> model_loaded p \<or> r = None" by (rule load_model_flag)
next
  assume "load_model w s p = (p', r)" "r = None"
  then have "load_model w s p = (p', None)" by simp
  then show "\<exists>sess name shape rest names.
                 path_exists w (model_path s)
                 \<and> InferenceSession w (model_path s) = Inr sess
                 \<and> get_inputs sess = (name, shape) # rest
                 \<and> 4 \<le> length shape
                 \<and> (if path_exists w (class_names_path s)
                     then \<exists>lines. readlines w (class_names_path s) = Inr lines
                            \<and> names = map strip lines
                     else names = [])
                 \<and> p' = p \<lparr> session := Some sess, input_name := name,
                             input_height := dim_or_224 (shape ! 2),
                             input_width := dim_or_224 (shape ! 3),
                             class_names := names, model_loaded := True \<rparr>"
    by (rule load_model_success)
next
  assume "\<not> model_loaded p \<and> model_loaded (after_call s p c)"
  then show "\<exists>w'. c = Construct w' \<and> load_model w' s p = (after_call s p c, None)"
    using after_call_becomes_loaded by blast
next
  assume "model_loaded p"
  then show "after_calls s p cs = p" by (rule after_calls_loaded)
qed

lemma load_example:
  "load_model example_world default_settings initial_predictor = (example_predictor, None)"
  by (simp add: load_model_def Let_def example_world_def default_settings_def
      initial_predictor_def example_predictor_def example_session_def)

lemma load_headless:
  "load_model headless_world default_settings initial_predictor
     = (initial_predictor \<lparr> session := Some (example_session \<lparr> get_inputs := [] \<rparr>) \<rparr>,
        Some (IndexError ''list index out of range''))"
  by (simp add: load_model_def Let_def headless_world_def example_world_def default_settings_def
      initial_predictor_def example_session_def)

theorem loaded_flag_invariant_witness:
  "load_model example_world default_settings initial_predictor = (example_predictor, None)
   \<and> model_loaded example_predictor
   \<and> load_model headless_world default_settings initial_predictor
       = (initial_predictor \<lparr> session := Some (example_session \<lparr> get_inputs := [] \<rparr>) \<rparr>,
          Some (IndexError ''list index out of range''))
   \<and> \<not> model_loaded (initial_predictor \<lparr> session := Some (example_session \<lparr> get_inputs := [] \<rparr>) \<rparr>)
   \<and> after_call default_settings initial_predictor (Construct example_world) = example_predictor
   \<and> after_calls default_settings example_predictor
        [Construct headless_world, Predict example_world example_image, Is_loaded,
         Get_model_info, Construct labelled_world] = example_predictor"
proof -
  note T = loaded_flag_invariant [of example_world default_settings initial_predictor
      example_predictor None "Construct example_world"]
  note U = loaded_flag_invariant [of headless_world default_settings initial_predictor
      "initial_predictor \<lparr> session := Some (example_session \<lparr> get_inputs := [] \<rparr>) \<rparr>"
      "Some (IndexError ''list index out of range'')"]
  have i: "\<not> model_loaded initial_predictor" by (rule T [THEN conjunct1])
  have l: "model_loaded example_predictor"
    using T [THEN conjunct2, THEN conjunct1, THEN mp, OF load_example, THEN conjunct1] by simp
  have n: "\<not> model_loaded (initial_predictor \<lparr> session := Some (example_session \<lparr> get_inputs := [] \<rparr>) \<rparr>)"
    using U [THEN conjunct2, THEN conjunct1, THEN mp, OF load_headless, THEN conjunct1] i by simp
  have a: "after_call default_settings initial_predictor (Construct example_world) = example_predictor"
    using i by (simp add: ModelPredictor_def load_example)
  have c: "after_calls default_settings example_predictor
        [Construct headless_world, Predict example_world example_image, Is_loaded,
         Get_model_info, Construct labelled_world] = example_predictor"
    by (rule loaded_flag_invariant [THEN conjunct2, THEN conjunct2, THEN conjunct2, THEN mp, OF l])
  show ?thesis using load_example l load_headless n a c by (intro conjI)
qed

section \<open>Class labels\<close>

lemma strip_trimmed:
  "\<exists>a b. line = a @ strip line @ b \<and> list_all isspace a \<and> list_all isspace b
         \<and> (strip line = [] \<or> \<not> isspace (hd (strip line)) \<and> \<not> isspace (last (strip line)))"
proof -
  define d where "d = dropWhile isspace line"
  define a where "a = takeWhile isspace line"
  define b where "b = rev (takeWhile isspace (rev d))"
  have st: "strip line = rev (dropWhile isspace (rev d))" by (simp add: strip_def d_def)
  have "rev (dropWhile isspace (rev d)) @ rev (takeWhile isspace (rev d))
      = rev (takeWhile isspace (rev d) @ dropWhile isspace (rev d))"
    by (simp only: rev_append)
  also have "\<dots> = d" by (simp only: takeWhile_dropWhile_id rev_rev_ident)
  finally have d: "d = strip line @ b" by (simp only: st b_def)
  have "line = a @ d" by (simp add: a_def d_def)
  then have line: "line = a @ strip line @ b" using d by simp
  have sa: "list_all isspace a" by (simp add: a_def list_all_iff) (meson set_takeWhileD)
  have sb: "list_all isspace b" by (simp add: b_def list_all_iff) (meson set_takeWhileD)
  have ends: "\<not> isspace (hd (strip line)) \<and> \<not> isspace (last (strip line))" if ne: "strip line \<noteq> []"
  proof -
    have dne: "d \<noteq> []" using d ne by auto
    have "hd (strip line) = hd d" using d ne by (metis hd_append2)
    moreover have "\<not> isspace (hd d)" using dne unfolding d_def by (rule hd_dropWhile)
    moreover have "last (strip line) = hd (dropWhile isspace (rev d))"
      using ne by (simp add: st last_rev)
    moreover have "\<not> isspace (hd (dropWhile isspace (rev d)))"
    proof (rule hd_dropWhile)
      show "dropWhile isspace (rev d) \<noteq> []" using ne unfolding st by simp
    qed
    ultimately show ?thesis by simp
  qed
  show ?thesis using line sa sb ends by blast
qed

text \<open>
  C7. Let the model file exist, the session open and its first input declare at least
  four dimensions. If the label file does not exist, loading raises nothing, the
  predictor is loaded and its labels are empty. If the label file exists and is read,
  the labels are its lines, each stripped: a line is its stripped form between a run of
  whitespace in front and one behind, and the stripped form neither starts nor ends with
  whitespace. With empty labels every returned class name is the decimal string of its
  class index.
\<close>

theorem labels_optional:
  assumes "path_exists w (model_path s)"
    and "InferenceSession w (model_path s) = Inr sess"
    and "get_inputs sess = (name, shape) # rest"
    and "4 \<le> length shape"
  shows "(\<not> path_exists w (class_names_path s) \<longrightarrow>
            (\<exists>p'. load_model w s p = (p', None) \<and> is_loaded p' \<and> class_names p' = []))
       \<and> (path_exists w (class_names_path s) \<and> readlines w (class_names_path s) = Inr lines \<longrightarrow>
            (\<exists>p'. load_model w s p = (p', None) \<and> is_loaded p'
                  \<and> class_names p' = map strip lines))
       \<and> (\<forall>line. \<exists>a b. line = a @ strip line @ b \<and> list_all isspace a \<and> list_all isspace b
              \<and> (strip line = [] \<or> \<not> isspace (hd (strip line)) \<and> \<not> isspace (last (strip line))))
       \<and> (rank w s [] raw = Inr out \<longrightarrow>
            map class_name out
              = map str_nat (filter (\<lambda>i. model_confidence_threshold s \<le> raw ! i) (top_indices w s raw)))"
proof (intro conjI impI allI)
  assume "\<not> path_exists w (class_names_path s)"
  then show "\<exists>p'. load_model w s p = (p', None) \<and> is_loaded p' \<and> class_names p' = []"
    using load_model_steps(1) [OF assms, where p = p] by (simp add: is_loaded_def)
next
  assume "path_exists w (class_names_path s) \<and> readlines w (class_names_path s) = Inr lines"
  then show "\<exists>p'. load_model w s p = (p', None) \<and> is_loaded p' \<and> class_names p' = map strip lines"
    using load_model_steps(2) [OF assms, where p = p and lines = lines] by (simp add: is_loaded_def)
next
  fix line
  show "\<exists>a b. line = a @ strip line @ b \<and> list_all isspace a \<and> list_all isspace b
              \<and> (strip line = [] \<or> \<not> isspace (hd (strip line)) \<and> \<not> isspace (last (strip line)))"
    by (rule strip_trimmed)
next
  assume "rank w s [] raw = Inr out"
  then have "out = map (\<lambda>i. \<lparr> class_name = label_of [] i, confidence = py_round (raw ! i) 4 \<rparr>)
                  (filter (\<lambda>i. model_confidence_threshold s \<le> raw ! i) (top_indices w s raw))"
    by (rule rank_Inr)
  then show "map class_name out
      = map str_nat (filter (\<lambda>i. model_confidence_threshold s \<le> raw ! i) (top_indices w s raw))"
    by (simp add: label_of_def comp_def)
qed

lemma load_labelled:
  "load_model labelled_world default_settings initial_predictor
     = (example_predictor \<lparr> class_names := [''cat'', ''dog'', ''''] \<rparr>, None)"
proof -
  have "map strip [''cat'' @ [CHR 0x0A], '' dog '' @ [CHR 0x0A], [CHR 0x0A]] = [''cat'', ''dog'', '''']"
    by code_simp
  then show ?thesis
    by (simp add: load_model_def Let_def labelled_world_def example_world_def default_settings_def
      initial_predictor_def example_predictor_def example_session_def)
qed

lemma rank_example:
  "rank example_world default_settings [] [1 / 10, 9 / 10, 3 / 10]
     = Inr [\<lparr>class_name = ''1'', confidence = 9 / 10\<rparr>, \<lparr>class_name = ''2'', confidence = 3 / 10\<rparr>]"
  by code_simp

theorem labels_optional_witness:
  "(\<exists>p'. load_model example_world default_settings initial_predictor = (p', None)
         \<and> is_loaded p' \<and> class_names p' = [])
   \<and> class_names (fst (load_model labelled_world default_settings initial_predictor))
        = [''cat'', ''dog'', '''']
   \<and> map str_nat (filter (\<lambda>i. model_confidence_threshold default_settings \<le> [1 / 10, 9 / 10, 3 / 10] ! i)
                     (top_indices example_world default_settings [1 / 10, 9 / 10, 3 / 10]))
        = [''1'', ''2'']"
proof -
  have h1: "path_exists example_world (model_path default_settings)"
    by (simp add: example_world_def default_settings_def)
  have h2: "InferenceSession example_world (model_path default_settings) = Inr example_session"
    by (simp add: example_world_def)
  have h3: "get_inputs example_session = (''images'', [Symbolic ''batch'', Dim 3, Dim 2, Dim 2]) # []"
    by (simp add: example_session_def)
  have h4: "4 \<le> length [Symbolic ''batch'', Dim 3, Dim 2, Dim 2]" by simp
  have n: "\<not> path_exists example_world (class_names_path default_settings)"
    by (simp add: example_world_def default_settings_def)
  have g1: "path_exists labelled_world (model_path default_settings)"
    by (simp add: labelled_world_def)
  have g2: "InferenceSession labelled_world (model_path default_settings) = Inr example_session"
    by (simp add: labelled_world_def example_world_def)
  have y: "path_exists labelled_world (class_names_path default_settings)
      \<and> readlines labelled_world (class_names_path default_settings)
          = Inr [''cat'' @ [CHR 0x0A], '' dog '' @ [CHR 0x0A], [CHR 0x0A]]"
    by (simp add: labelled_world_def)
  note T = labels_optional [OF h1 h2 h3 h4, where p = initial_predictor
      and raw = "[1 / 10, 9 / 10, 3 / 10]"
      and out = "[\<lparr>class_name = ''1'', confidence = 9 / 10\<rparr>, \<lparr>class_name = ''2'', confidence = 3 / 10\<rparr>]"]
  note U = labels_optional [OF g1 g2 h3 h4, where p = initial_predictor
      and lines = "[''cat'' @ [CHR 0x0A], '' dog '' @ [CHR 0x0A], [CHR 0x0A]]"]
  have a: "\<exists>p'. load_model example_world default_settings initial_predictor = (p', None)
         \<and> is_loaded p' \<and> class_names p' = []"
    by (rule T [THEN conjunct1, THEN mp, OF n])
  obtain p' where p': "load_model labelled_world default_settings initial_predictor = (p', None)"
      "class_names p' = map strip [''cat'' @ [CHR 0x0A], '' dog '' @ [CHR 0x0A], [CHR 0x0A]]"
    using U [THEN conjunct2, THEN conjunct1, THEN mp, OF y] by blast
  have "class_names p' = [''cat'', ''dog'', '''']"
    using p'(1) by (auto simp: load_labelled)
  then have b: "class_names (fst (load_model labelled_world default_settings initial_predictor))
        = [''cat'', ''dog'', '''']"
    by (simp add: p'(1))
  have "map class_name [\<lparr>class_name = ''1'', confidence = 9 / 10 :: rat\<rparr>, \<lparr>class_name = ''2'', confidence = 3 / 10\<rparr>]
      = map str_nat (filter (\<lambda>i. model_confidence_threshold default_settings \<le> [1 / 10, 9 / 10, 3 / 10] ! i)
                     (top_indices example_world default_settings [1 / 10, 9 / 10, 3 / 10]))"
    by (rule T [THEN conjunct2, THEN conjunct2, THEN conjunct2, THEN mp, OF rank_example])
  then have c: "map str_nat (filter (\<lambda>i. model_confidence_threshold default_settings \<le> [1 / 10, 9 / 10, 3 / 10] ! i)
                     (top_indices example_world default_settings [1 / 10, 9 / 10, 3 / 10]))
        = [''1'', ''2'']"
    by simp
  show ?thesis using a b c by (intro conjI)
qed

section \<open>Prediction before loading\<close>

text \<open>
  C8. When the loaded flag is false or the session is absent, \<open>predictor_predict\<close>
  fails with the error "Model not loaded", whatever the image. When the flag is true
  and the session present it never fails with that error, and this is the case after
  every load that raised nothing.
\<close>

theorem predict_not_loaded:
  "(\<not> (model_loaded p \<and> session p \<noteq> None) \<longrightarrow>
      predictor_predict w s p img = Inl (RuntimeError ''Model not loaded''))
   \<and> (model_loaded p \<and> session p \<noteq> None \<longrightarrow>
      predictor_predict w s p img \<noteq> Inl (RuntimeError ''Model not loaded''))
   \<and> (load_model w0 s0 p0 = (p, None) \<longrightarrow>
      model_loaded p \<and> session p \<noteq> None
      \<and> predictor_predict w s p img \<noteq> Inl (RuntimeError ''Model not loaded''))"
proof -
  have a: "predictor_predict w s p img = Inl (RuntimeError ''Model not loaded'')"
    if "\<not> (model_loaded p \<and> session p \<noteq> None)"
    using that by (simp add: predictor_predict_def is_loaded_def)
  have b: "predictor_predict w s p img \<noteq> Inl (RuntimeError ''Model not loaded'')"
    if "model_loaded p \<and> session p \<noteq> None"
    using that predictor_predict_Inl [of w s p img "RuntimeError ''Model not loaded''"]
    by (auto simp: is_loaded_def)
  have c: "model_loaded p \<and> session p \<noteq> None" if "load_model w0 s0 p0 = (p, None)"
    using load_model_success [OF that] by auto
  show ?thesis using a b c by blast
qed

theorem predict_not_loaded_witness:
  "predictor_predict example_world default_settings initial_predictor example_image
     = Inl (RuntimeError ''Model not loaded'')
   \<and> load_model example_world default_settings initial_predictor = (example_predictor, None)
   \<and> model_loaded example_predictor \<and> session example_predictor \<noteq> None
   \<and> predictor_predict example_world default_settings example_predictor example_image
       \<noteq> Inl (RuntimeError ''Model not loaded'')"
proof -
  have n: "\<not> (model_loaded initial_predictor \<and> session initial_predictor \<noteq> None)"
    by (simp add: initial_predictor_def)
  have a: "predictor_predict example_world default_settings initial_predictor example_image
     = Inl (RuntimeError ''Model not loaded'')"
    by (rule predict_not_loaded [THEN conjunct1, THEN mp, OF n])
  have b: "model_loaded example_predictor \<and> session example_predictor \<noteq> None
      \<and> predictor_predict example_world default_settings example_predictor example_image
          \<noteq> Inl (RuntimeError ''Model not loaded'')"
    by (rule predict_not_loaded [THEN conjunct2, THEN conjunct2, THEN mp, OF load_example])
  have l: "model_loaded example_predictor \<and> session example_predictor \<noteq> None"
    using b by blast
  have c: "predictor_predict example_world default_settings example_predictor example_image
          \<noteq> Inl (RuntimeError ''Model not loaded'')"
    by (rule predict_not_loaded [THEN conjunct2, THEN conjunct1, THEN mp, OF l])
  show ?thesis using a load_example l c by blast
qed

end
